theory Spec2Isabelle
  imports Main "HOL-Library.Word"
begin

unbundle bit_operations_syntax

section \<open>Machine integers and slices of the Go sources\<close>

text \<open>
  Go's sized integers are words: \<open>+\<close> wraps, \<open>sint\<close> reads an \<open>int64\<close>, \<open>uint\<close> a
  \<open>uint8\<close> or \<open>uint32\<close>. A comparison of \<open>int64\<close> values is the signed comparison
  \<open>word_sle\<close> / \<open>word_sless\<close>, a comparison of unsigned values is the order of the
  word type. A conversion \<open>uint32(x)\<close> from \<open>uint8\<close>, or \<open>uint8(x)\<close> from \<open>int\<close>, is
  \<open>ucast\<close>. A string is a list of bytes, and \<open>len\<close> its length.
\<close>

type_synonym int64 = "64 word"
type_synonym uint8 = "8 word"
type_synonym uint32 = "32 word"
type_synonym byte = "8 word"

text \<open>Go's \<open>append(elems, x)\<close> on a slice.\<close>

definition append_slice :: "'a list \<Rightarrow> 'a \<Rightarrow> 'a list" where
  "append_slice elems x = elems @ [x]"

text \<open>Go's \<open>copy(dst, src)\<close>: the first \<open>min (len dst) (len src)\<close> elements are overwritten.\<close>

definition copy_slice :: "'a list \<Rightarrow> 'a list \<Rightarrow> 'a list" where
  "copy_slice dst src =
     (let n = min (length dst) (length src) in take n src @ drop n dst)"

text \<open>The verb \<open>%d\<close> of \<open>fmt\<close> on a non-negative integer.\<close>

fun decimal :: "nat \<Rightarrow> string" where
  "decimal n =
     (if n < 10 then [''0123456789'' ! n]
      else decimal (n div 10) @ [''0123456789'' ! (n mod 10)])"

declare decimal.simps [simp del]

section \<open>The WebAssembly binding (package main, sharedlib)\<close>

subsection \<open>JavaScript values\<close>

text \<open>
  The arguments of an exported function are JavaScript values. A number is represented
  by the \<open>int\<close> that \<open>Value.Int\<close> truncates it to (64 bits on this target).
  \<open>Value.Int\<close> panics on a value that is not a number; \<open>Value.String\<close> never panics:
  on a string it returns the string, on any other value a description composed by the
  runtime, which is a parameter (\<open>describe\<close>) of the model.
\<close>

datatype js_value =
    JsUndefined
  | JsNull
  | JsBoolean bool
  | JsNumber int64
  | JsString string
  | JsObject nat

definition IsNull :: "js_value \<Rightarrow> bool" where
  "IsNull v = (v = JsNull)"

definition IsUndefined :: "js_value \<Rightarrow> bool" where
  "IsUndefined v = (v = JsUndefined)"

text \<open>\<open>None\<close> is the panic of \<open>Value.Int\<close>.\<close>

definition js_Int :: "js_value \<Rightarrow> int64 option" where
  "js_Int v = (case v of JsNumber n \<Rightarrow> Some n | _ \<Rightarrow> None)"

definition js_String :: "(js_value \<Rightarrow> string) \<Rightarrow> js_value \<Rightarrow> string" where
  "js_String describe v = (case v of JsString s \<Rightarrow> s | _ \<Rightarrow> describe v)"

text \<open>\<open>validateArg\<close> returns an error, here its message, or \<open>nil\<close>.\<close>

definition validateArg :: "js_value list \<Rightarrow> nat \<Rightarrow> string \<Rightarrow> string option" where
  "validateArg args index argName =
     (if index \<ge> length args
        then Some (''missing required argument: '' @ argName @ '' (index '' @ decimal index @ '')'')
      else if IsNull (args ! index)
        then Some (''argument '' @ argName @ '' cannot be null'')
      else if IsUndefined (args ! index)
        then Some (''argument '' @ argName @ '' cannot be undefined'')
      else None)"

subsection \<open>Responses\<close>

text \<open>
  Every exported function returns the JSON text of a response struct. The structs hold
  strings only, for which \<open>json.Marshal\<close> cannot fail, so a returned value is
  modelled by the struct itself and the branch taken on a marshalling error of the
  response is left out.
\<close>

record ErrorResponse =
  Error :: string

record StringResponse =
  Result :: string
  Error :: string

definition error_response :: "string \<Rightarrow> ErrorResponse" where
  "error_response e = \<lparr>ErrorResponse.Error = e\<rparr>"

definition string_error :: "string \<Rightarrow> StringResponse" where
  "string_error e = \<lparr>Result = [], Error = e\<rparr>"

text \<open>
  How far a function gets: it panics (the deferred \<open>recover\<close> then lets it return
  \<open>nil\<close>, the result parameter being unnamed), it returns a response early, or it goes
  on with a value.
\<close>

datatype ('r, 'a) step = Panic | Return 'r | Next 'a

subsection \<open>Requests (package types) and the client (package client)\<close>

record TransferTxReq =
  ToAccountIndex :: int64
  USDCAmount :: int64
  Fee :: int64
  Memo :: "byte list"

record TransactOpts =
  Nonce :: "int64 option"
  ExpiredAt :: int64

definition new_TransactOpts :: TransactOpts where
  "new_TransactOpts = \<lparr>Nonce = None, ExpiredAt = 0\<rparr>"

record CreateOrderTxReq =
  MarketIndex :: uint8
  ClientOrderIndex :: int64
  BaseAmount :: int64
  Price :: uint32
  IsAsk :: uint8
  Type :: uint8
  TimeInForce :: uint8
  ReduceOnly :: uint8
  TriggerPrice :: uint32
  OrderExpiry :: int64

record CreateGroupedOrdersTxReq =
  GroupingType :: uint8
  Orders :: "CreateOrderTxReq list"

text \<open>The element type of \<open>orderRequests\<close> in \<open>signCreateGroupedOrders\<close>.\<close>

record orderRequest =
  MarketIndex :: uint8
  BaseAmount :: int64
  Price :: uint32
  IsAsk :: uint8
  Type :: uint8
  TimeInForce :: uint8
  ReduceOnly :: uint8
  TriggerPrice :: uint32
  OrderExpiry :: int64

record HTTPClient =
  endpoint :: string
  channelName :: string
  fatFingerProtection :: bool

definition NewHTTPClient :: "string \<Rightarrow> HTTPClient option" where
  "NewHTTPClient baseUrl =
     (if baseUrl = [] then None
      else Some \<lparr>endpoint = baseUrl, channelName = [], fatFingerProtection = True\<rparr>)"

text \<open>
  What the binding calls and the sources do not hold is a parameter of the model:
  \<^item> \<open>describe\<close>: \<open>Value.String\<close> on a value that is not a string;
  \<^item> \<open>NewTxClient\<close>: the constructor of the transaction client, returning a pointer
    (\<open>None\<close> is \<open>nil\<close>) and an error (its message, \<open>None\<close> is \<open>nil\<close>);
  \<^item> \<open>hexutil_Decode\<close>: the decoder of a \<open>0x\<close>-prefixed hex string;
  \<^item> \<open>Unmarshal_orders\<close>: \<open>json.Unmarshal\<close> into the slice \<open>orderRequests\<close>;
  \<^item> \<open>now_plus_28_days\<close>: the value of
    \<open>time.Now().Add(time.Hour * 24 * 28).UnixMilli()\<close> when the loop builds leg \<open>i\<close>;
  \<^item> \<open>GetTransferTransaction\<close>, \<open>GetCreateGroupedOrdersTransaction\<close>: the methods of
    the client that validate, hash and sign;
  \<^item> \<open>render_transfer\<close>, \<open>render_grouped\<close>: the serialisation of the signed
    transaction into the JSON text of the result (for a transfer with the field
    \<open>MessageToSign\<close> added), or the message of the error it ends with.
  An error is represented by its message. The calls are taken to return.
\<close>

type_synonym 'c ptr = "'c option"

record ('c, 't, 'g) runtime =
  describe :: "js_value \<Rightarrow> string"
  NewTxClient ::
    "HTTPClient option \<Rightarrow> string \<Rightarrow> int64 \<Rightarrow> uint8 \<Rightarrow> uint32 \<Rightarrow> 'c ptr \<times> string option"
  hexutil_Decode :: "string \<Rightarrow> string + byte list"
  Unmarshal_orders :: "string \<Rightarrow> string + orderRequest list"
  now_plus_28_days :: "nat \<Rightarrow> int64"
  GetTransferTransaction :: "'c \<Rightarrow> TransferTxReq \<Rightarrow> TransactOpts \<Rightarrow> string + 't"
  GetCreateGroupedOrdersTransaction ::
    "'c \<Rightarrow> CreateGroupedOrdersTxReq \<Rightarrow> TransactOpts \<Rightarrow> string + 'g"
  render_transfer :: "'t \<Rightarrow> string + string"
  render_grouped :: "'g \<Rightarrow> string + string"

subsection \<open>The global client and the registry\<close>

text \<open>
  \<open>txClient\<close> is a pointer, \<open>backupTxClients\<close> a map that is \<open>nil\<close> (\<open>None\<close>) until
  \<open>createClient\<close> makes it. Reading a \<open>nil\<close> map finds no key.
\<close>

record 'c globals =
  txClient :: "'c ptr"
  backupTxClients :: "(uint8 \<rightharpoonup> 'c ptr) option"

definition map_index :: "('k \<rightharpoonup> 'v) option \<Rightarrow> 'k \<Rightarrow> 'v option" where
  "map_index m k = (case m of None \<Rightarrow> None | Some f \<Rightarrow> f k)"

subsection \<open>createClient\<close>

definition createClient ::
  "('c, 't, 'g) runtime \<Rightarrow> 'c globals \<Rightarrow> js_value list \<Rightarrow> 'c globals \<times> ErrorResponse option" where
  "createClient R st args =
     (if length args \<noteq> 5 then
        (st, Some (error_response
          ''createClient requires 5 arguments: url, privateKey, chainId, apiKeyIndex, accountIndex''))
      else if validateArg args 0 ''url'' \<noteq> None then
        (st, Some (error_response (the (validateArg args 0 ''url''))))
      else if validateArg args 1 ''privateKey'' \<noteq> None then
        (st, Some (error_response (the (validateArg args 1 ''privateKey''))))
      else if validateArg args 2 ''chainId'' \<noteq> None then
        (st, Some (error_response (the (validateArg args 2 ''chainId''))))
      else if validateArg args 3 ''apiKeyIndex'' \<noteq> None then
        (st, Some (error_response (the (validateArg args 3 ''apiKeyIndex''))))
      else if validateArg args 4 ''accountIndex'' \<noteq> None then
        (st, Some (error_response (the (validateArg args 4 ''accountIndex''))))
      else
        let url = js_String (describe R) (args ! 0);
            privateKey = js_String (describe R) (args ! 1)
        in case (js_Int (args ! 2), js_Int (args ! 3), js_Int (args ! 4)) of
             (Some a2, Some a3, Some a4) \<Rightarrow>
               let chainId = (ucast a2 :: uint32);
                   apiKeyIndex = (ucast a3 :: uint8);
                   accountIndex = a4
               in if accountIndex <=s 0 then
                    (st, Some (error_response ''invalid account index''))
                  else
                    let httpClient = NewHTTPClient url;
                        (client, err) =
                          NewTxClient R httpClient privateKey accountIndex apiKeyIndex chainId;
                        st = st\<lparr>txClient := client\<rparr>
                    in (case err of
                          Some e \<Rightarrow>
                            (st, Some (error_response
                              (''error occurred when creating TxClient. err: '' @ e)))
                        | None \<Rightarrow>
                            let st = (if backupTxClients st = None
                                      then st\<lparr>backupTxClients := Some Map.empty\<rparr> else st);
                                st = st\<lparr>backupTxClients :=
                                       Some ((the (backupTxClients st))(apiKeyIndex \<mapsto> txClient st))\<rparr>
                            in (st, Some (error_response [])))
           | _ \<Rightarrow> (st, None))"

subsection \<open>switchAPIKey\<close>

definition switchAPIKey ::
  "'c globals \<Rightarrow> js_value list \<Rightarrow> 'c globals \<times> ErrorResponse option" where
  "switchAPIKey st args =
     (if length args \<noteq> 1 then
        (st, Some (error_response ''switchAPIKey requires 1 argument: apiKeyIndex''))
      else if validateArg args 0 ''apiKeyIndex'' \<noteq> None then
        (st, Some (error_response (the (validateArg args 0 ''apiKeyIndex''))))
      else
        case js_Int (args ! 0) of
          None \<Rightarrow> (st, None)
        | Some a0 \<Rightarrow>
            let apiKeyIndex = (ucast a0 :: uint8) in
            (case map_index (backupTxClients st) apiKeyIndex of
               None \<Rightarrow> (st, Some (error_response ''no client initialized for api key''))
             | Some client \<Rightarrow> (st\<lparr>txClient := client\<rparr>, Some (error_response []))))"

subsection \<open>signTransfer\<close>

text \<open>
  The memo handling of \<open>signTransfer\<close>: the array \<open>memo\<close> that goes into the request, or
  the message of the error response.
\<close>

definition transfer_memo :: "('c, 't, 'g) runtime \<Rightarrow> string \<Rightarrow> string + byte list" where
  "transfer_memo R memoStr =
     (let memo = replicate 32 (0 :: byte) in
      if memoStr \<noteq> [] then
        if length memoStr \<noteq> 64 then
          Inl ''memo expected to be 64 hex characters (32 bytes) or empty string''
        else
          case hexutil_Decode R (''0x'' @ memoStr) of
            Inl err \<Rightarrow> Inl (''invalid hex memo: '' @ err)
          | Inr memoBytes \<Rightarrow>
              if length memoBytes \<noteq> 32 then
                Inl (''memo must be exactly 32 bytes, got '' @ decimal (length memoBytes))
              else Inr (copy_slice memo memoBytes)
      else Inr memo)"

text \<open>
  \<open>signTransfer\<close> up to the call of \<open>GetTransferTransaction\<close>: the client, the request
  \<open>txInfo\<close> and the options \<open>ops\<close> it has constructed for that call.
\<close>

definition signTransfer_request ::
  "('c, 't, 'g) runtime \<Rightarrow> 'c globals \<Rightarrow> js_value list
     \<Rightarrow> (StringResponse, 'c \<times> TransferTxReq \<times> TransactOpts) step" where
  "signTransfer_request R st args =
     (if length args \<noteq> 5 then
        Return (string_error
          ''signTransfer requires 5 arguments: toAccountIndex, usdcAmount, fee, memo, nonce'')
      else if validateArg args 0 ''toAccountIndex'' \<noteq> None then
        Return (string_error (the (validateArg args 0 ''toAccountIndex'')))
      else if validateArg args 1 ''usdcAmount'' \<noteq> None then
        Return (string_error (the (validateArg args 1 ''usdcAmount'')))
      else if validateArg args 2 ''fee'' \<noteq> None then
        Return (string_error (the (validateArg args 2 ''fee'')))
      else if validateArg args 3 ''memo'' \<noteq> None then
        Return (string_error (the (validateArg args 3 ''memo'')))
      else if validateArg args 4 ''nonce'' \<noteq> None then
        Return (string_error (the (validateArg args 4 ''nonce'')))
      else
        case txClient st of
          None \<Rightarrow> Return (string_error ''client is not created, call CreateClient() first'')
        | Some client \<Rightarrow>
            (case (js_Int (args ! 0), js_Int (args ! 1), js_Int (args ! 2), js_Int (args ! 4)) of
               (Some toAccountIndex, Some usdcAmount, Some fee, Some nonce) \<Rightarrow>
                 let memoStr = js_String (describe R) (args ! 3) in
                 (case transfer_memo R memoStr of
                    Inl e \<Rightarrow> Return (string_error e)
                  | Inr memo \<Rightarrow>
                      let txInfo = \<lparr>ToAccountIndex = toAccountIndex, USDCAmount = usdcAmount,
                                     Fee = fee, Memo = memo\<rparr>;
                          ops = new_TransactOpts;
                          ops = (if nonce \<noteq> - 1 then ops\<lparr>TransactOpts.Nonce := Some nonce\<rparr>
                                 else ops)
                      in Next (client, txInfo, ops))
             | _ \<Rightarrow> Panic))"

definition signTransfer ::
  "('c, 't, 'g) runtime \<Rightarrow> 'c globals \<Rightarrow> js_value list \<Rightarrow> StringResponse option" where
  "signTransfer R st args =
     (case signTransfer_request R st args of
        Panic \<Rightarrow> None
      | Return response \<Rightarrow> Some response
      | Next (client, txInfo, ops) \<Rightarrow>
          (case GetTransferTransaction R client txInfo ops of
             Inl err \<Rightarrow> Some (string_error (''failed to create transaction: '' @ err))
           | Inr tx \<Rightarrow>
               (case render_transfer R tx of
                  Inl e \<Rightarrow> Some (string_error e)
                | Inr txInfoBytes \<Rightarrow> Some \<lparr>Result = txInfoBytes, Error = []\<rparr>)))"

subsection \<open>signCreateGroupedOrders\<close>

text \<open>
  The loop over \<open>orderRequests\<close>: \<open>i\<close> counts the legs built so far, \<open>orders\<close> is the
  slice appended to.
\<close>

fun build_orders ::
  "(nat \<Rightarrow> int64) \<Rightarrow> nat \<Rightarrow> orderRequest list \<Rightarrow> CreateOrderTxReq list \<Rightarrow> CreateOrderTxReq list" where
  "build_orders clock i [] orders = orders"
| "build_orders clock i (orderReq # rest) orders =
     (let orderExpiry = OrderExpiry orderReq;
          orderExpiry = (if orderExpiry = - 1 then clock i else orderExpiry)
      in build_orders clock (Suc i) rest
           (append_slice orders
              \<lparr>CreateOrderTxReq.MarketIndex = MarketIndex orderReq,
               ClientOrderIndex = 0,
               CreateOrderTxReq.BaseAmount = BaseAmount orderReq,
               CreateOrderTxReq.Price = Price orderReq,
               CreateOrderTxReq.IsAsk = IsAsk orderReq,
               CreateOrderTxReq.Type = Type orderReq,
               CreateOrderTxReq.TimeInForce = TimeInForce orderReq,
               CreateOrderTxReq.ReduceOnly = ReduceOnly orderReq,
               CreateOrderTxReq.TriggerPrice = TriggerPrice orderReq,
               CreateOrderTxReq.OrderExpiry = orderExpiry\<rparr>))"

declare build_orders.simps [simp del]

definition signCreateGroupedOrders_request ::
  "('c, 't, 'g) runtime \<Rightarrow> 'c globals \<Rightarrow> js_value list
     \<Rightarrow> (StringResponse, 'c \<times> CreateGroupedOrdersTxReq \<times> TransactOpts) step" where
  "signCreateGroupedOrders_request R st args =
     (if length args \<noteq> 4 then
        Return (string_error
          ''signCreateGroupedOrders requires 4 arguments: groupingType, ordersJSON, expiredAt, nonce'')
      else if validateArg args 0 ''groupingType'' \<noteq> None then
        Return (string_error (the (validateArg args 0 ''groupingType'')))
      else if validateArg args 1 ''ordersJSON'' \<noteq> None then
        Return (string_error (the (validateArg args 1 ''ordersJSON'')))
      else if validateArg args 2 ''expiredAt'' \<noteq> None then
        Return (string_error (the (validateArg args 2 ''expiredAt'')))
      else if validateArg args 3 ''nonce'' \<noteq> None then
        Return (string_error (the (validateArg args 3 ''nonce'')))
      else
        case txClient st of
          None \<Rightarrow> Return (string_error ''client is not created, call CreateClient() first'')
        | Some client \<Rightarrow>
            (case (js_Int (args ! 0), js_Int (args ! 2), js_Int (args ! 3)) of
               (Some a0, Some expiredAt, Some nonce) \<Rightarrow>
                 let groupingType = (ucast a0 :: uint8);
                     ordersJSON = js_String (describe R) (args ! 1)
                 in (case Unmarshal_orders R ordersJSON of
                       Inl err \<Rightarrow> Return (string_error (''failed to parse ordersJSON: '' @ err))
                     | Inr orderRequests \<Rightarrow>
                         if length orderRequests < 2 \<or> length orderRequests > 3 then
                           Return (string_error ''grouped orders must contain 2 or 3 orders'')
                         else
                           let orders = build_orders (now_plus_28_days R) 0 orderRequests [];
                               txInfo = \<lparr>GroupingType = groupingType, Orders = orders\<rparr>;
                               ops = new_TransactOpts;
                               ops = (if nonce \<noteq> - 1
                                      then ops\<lparr>TransactOpts.Nonce := Some nonce\<rparr> else ops);
                               ops = (if expiredAt \<noteq> - 1
                                      then ops\<lparr>TransactOpts.ExpiredAt := expiredAt\<rparr> else ops)
                           in Next (client, txInfo, ops))
             | _ \<Rightarrow> Panic))"

definition signCreateGroupedOrders ::
  "('c, 't, 'g) runtime \<Rightarrow> 'c globals \<Rightarrow> js_value list \<Rightarrow> StringResponse option" where
  "signCreateGroupedOrders R st args =
     (case signCreateGroupedOrders_request R st args of
        Panic \<Rightarrow> None
      | Return response \<Rightarrow> Some response
      | Next (client, txInfo, ops) \<Rightarrow>
          (case GetCreateGroupedOrdersTransaction R client txInfo ops of
             Inl err \<Rightarrow> Some (string_error (''failed to create transaction: '' @ err))
           | Inr tx \<Rightarrow>
               (case render_grouped R tx of
                  Inl e \<Rightarrow> Some (string_error e)
                | Inr txInfoBytes \<Rightarrow> Some \<lparr>Result = txInfoBytes, Error = []\<rparr>)))"

subsection \<open>Sequences of calls\<close>

datatype call = CreateClient "js_value list" | SwitchAPIKey "js_value list"

fun perform ::
  "('c, 't, 'g) runtime \<Rightarrow> 'c globals \<Rightarrow> call \<Rightarrow> 'c globals \<times> ErrorResponse option" where
  "perform R st (CreateClient args) = createClient R st args"
| "perform R st (SwitchAPIKey args) = switchAPIKey st args"

text \<open>A call is successful when it returns the response with the empty error.\<close>

definition successful :: "ErrorResponse option \<Rightarrow> bool" where
  "successful r = (r = Some (error_response []))"

text \<open>The state after a sequence of calls, provided each of them is successful.\<close>

fun run_successful ::
  "('c, 't, 'g) runtime \<Rightarrow> 'c globals \<Rightarrow> call list \<Rightarrow> 'c globals option" where
  "run_successful R st [] = Some st"
| "run_successful R st (c # cs) =
     (case perform R st c of (st', r) \<Rightarrow>
        if successful r then run_successful R st' cs else None)"

text \<open>The active client is stored in the registry under some index.\<close>

definition active_registered :: "'c globals \<Rightarrow> bool" where
  "active_registered st = (\<exists>k. map_index (backupTxClients st) k = Some (txClient st))"

definition initial_globals :: "'c globals" where
  "initial_globals = \<lparr>txClient = None, backupTxClients = None\<rparr>"

subsection \<open>Concrete inputs of the binding\<close>

text \<open>
  The theorems below are evaluated on one instance of the parameters. Its hex decoder
  accepts an input with the prefix \<open>0x\<close> or \<open>0X\<close> and an even number of hex digits
  of either case, and returns one byte for each pair of digits. Its client
  constructor names a client by its api-key index, its JSON decoder returns a fixed
  list of legs, and its transaction builders and serialisations succeed.
\<close>

definition fromHexChar :: "char \<Rightarrow> byte option" where
  "fromHexChar c =
     (let n = (of_char c :: nat) in
      if 48 \<le> n \<and> n \<le> 57 then Some (of_nat (n - 48))
      else if 97 \<le> n \<and> n \<le> 102 then Some (of_nat (n - 97 + 10))
      else if 65 \<le> n \<and> n \<le> 70 then Some (of_nat (n - 65 + 10))
      else None)"

fun hex_DecodeString :: "string \<Rightarrow> string + byte list" where
  "hex_DecodeString [] = Inr []"
| "hex_DecodeString [p] =
     (case fromHexChar p of
        None \<Rightarrow> Inl ''invalid hex string''
      | Some a \<Rightarrow> Inl ''hex string of odd length'')"
| "hex_DecodeString (p # q # rest) =
     (case (fromHexChar p, fromHexChar q) of
        (Some a, Some b) \<Rightarrow>
          (case hex_DecodeString rest of
             Inl e \<Rightarrow> Inl e
           | Inr bs \<Rightarrow> Inr ((push_bit 4 a OR b) # bs))
      | _ \<Rightarrow> Inl ''invalid hex string'')"

definition reference_Decode :: "string \<Rightarrow> string + byte list" where
  "reference_Decode input =
     (if input = [] then Inl ''empty hex string''
      else if take 2 input \<noteq> ''0x'' \<and> take 2 input \<noteq> ''0X''
        then Inl ''hex string without 0x prefix''
      else hex_DecodeString (drop 2 input))"

definition sample_leg :: orderRequest where
  "sample_leg = \<lparr>MarketIndex = 0, BaseAmount = 401, Price = 210000, IsAsk = 1, Type = 4,
     TimeInForce = 0, ReduceOnly = 1, TriggerPrice = 210000, OrderExpiry = - 1\<rparr>"

definition sample_runtime :: "orderRequest list \<Rightarrow> (nat, string, string) runtime" where
  "sample_runtime legs =
     \<lparr>describe = (\<lambda>v. ''<object>''),
      NewTxClient = (\<lambda>httpClient privateKey accountIndex apiKeyIndex chainId.
         if privateKey = [] then (None, Some ''empty private key'')
         else (Some (unat apiKeyIndex), None)),
      hexutil_Decode = reference_Decode,
      Unmarshal_orders = (\<lambda>ordersJSON. Inr legs),
      now_plus_28_days = (\<lambda>i. 1702419200000),
      GetTransferTransaction = (\<lambda>client txInfo ops. Inr ''transfer''),
      GetCreateGroupedOrdersTransaction = (\<lambda>client txInfo ops. Inr ''grouped''),
      render_transfer = Inr,
      render_grouped = Inr\<rparr>"

definition sample_globals :: "nat globals" where
  "sample_globals =
     \<lparr>txClient = Some 3, backupTxClients = Some [3 \<mapsto> Some 3, 5 \<mapsto> Some 5]\<rparr>"

definition sample_calls :: "call list" where
  "sample_calls =
     [CreateClient [JsString ''https://api'', JsString ''key3'', JsNumber 304, JsNumber 3, JsNumber 7],
      CreateClient [JsString ''https://api'', JsString ''key5'', JsNumber 304, JsNumber 5, JsNumber 7],
      SwitchAPIKey [JsNumber 3]]"

definition sample_memo :: string where
  "sample_memo = ''0123456789abcdef0123456789abcdef0123456789abcdef0123456789abcdef''"

definition sample_memo_bytes :: "byte list" where
  "sample_memo_bytes =
     [0x01, 0x23, 0x45, 0x67, 0x89, 0xab, 0xcd, 0xef, 0x01, 0x23, 0x45, 0x67, 0x89, 0xab, 0xcd, 0xef,
      0x01, 0x23, 0x45, 0x67, 0x89, 0xab, 0xcd, 0xef, 0x01, 0x23, 0x45, 0x67, 0x89, 0xab, 0xcd, 0xef]"

section \<open>The other signing functions of the binding\<close>

type_synonym uint16 = "16 word"
type_synonym uint64 = "64 word"

subsection \<open>Requests (package types)\<close>

record ChangePubKeyReq =
  PubKey :: "byte list"

record CancelOrderTxReq =
  MarketIndex :: uint8
  Index :: int64

record WithdrawTxReq =
  USDCAmount :: uint64

record CancelAllOrdersTxReq =
  TimeInForce :: uint8
  Time :: int64

record ModifyOrderTxReq =
  MarketIndex :: uint8
  Index :: int64
  BaseAmount :: int64
  Price :: uint32
  TriggerPrice :: uint32

record CreatePublicPoolTxReq =
  OperatorFee :: int64
  InitialTotalShares :: int64
  MinOperatorShareRate :: int64

record UpdatePublicPoolTxReq =
  PublicPoolIndex :: int64
  Status :: uint8
  OperatorFee :: int64
  MinOperatorShareRate :: int64

record MintSharesTxReq =
  PublicPoolIndex :: int64
  ShareAmount :: int64

record BurnSharesTxReq =
  PublicPoolIndex :: int64
  ShareAmount :: int64

record UpdateLeverageTxReq =
  MarketIndex :: uint8
  InitialMarginFraction :: uint16
  MarginMode :: uint8

record UpdateMarginTxReq =
  MarketIndex :: uint8
  USDCAmount :: int64
  Direction :: uint8

subsection \<open>The methods of the client\<close>

text \<open>
  The remaining methods of the transaction client that the binding calls, with the
  clock readings and serialisations of these functions, are a second parameter:
  \<^item> \<open>Get\<dots>Transaction\<close>: the methods that validate, hash and sign, returning a signed
    transaction (of type \<open>'x\<close>, whatever its kind) or an error;
  \<^item> \<open>GetAuthToken\<close>: the method that signs an auth token for a deadline, given here
    in Unix seconds;
  \<^item> \<open>json_Marshal\<close>: \<open>json.Marshal\<close> on a signed transaction;
  \<^item> \<open>render_with_message\<close>: the serialisation of a signed transaction with the
    field \<open>MessageToSign\<close> added, or the message of the error it ends with;
  \<^item> \<open>now_plus_28_days_ms\<close>: the value of
    \<open>time.Now().Add(time.Hour * 24 * 28).UnixMilli()\<close> in \<open>signCreateOrder\<close>;
  \<^item> \<open>now_plus_7_hours\<close>: the value of \<open>time.Now().Add(time.Hour * 7).Unix()\<close> in
    \<open>createAuthToken\<close>.
\<close>

record ('c, 'x) methods =
  GetChangePubKeyTransaction :: "'c \<Rightarrow> ChangePubKeyReq \<Rightarrow> TransactOpts \<Rightarrow> string + 'x"
  GetCreateOrderTransaction :: "'c \<Rightarrow> CreateOrderTxReq \<Rightarrow> TransactOpts \<Rightarrow> string + 'x"
  GetCancelOrderTransaction :: "'c \<Rightarrow> CancelOrderTxReq \<Rightarrow> TransactOpts \<Rightarrow> string + 'x"
  GetWithdrawTransaction :: "'c \<Rightarrow> WithdrawTxReq \<Rightarrow> TransactOpts \<Rightarrow> string + 'x"
  GetCreateSubAccountTransaction :: "'c \<Rightarrow> TransactOpts \<Rightarrow> string + 'x"
  GetCancelAllOrdersTransaction :: "'c \<Rightarrow> CancelAllOrdersTxReq \<Rightarrow> TransactOpts \<Rightarrow> string + 'x"
  GetModifyOrderTransaction :: "'c \<Rightarrow> ModifyOrderTxReq \<Rightarrow> TransactOpts \<Rightarrow> string + 'x"
  GetCreatePublicPoolTransaction ::
    "'c \<Rightarrow> CreatePublicPoolTxReq \<Rightarrow> TransactOpts \<Rightarrow> string + 'x"
  GetUpdatePublicPoolTransaction ::
    "'c \<Rightarrow> UpdatePublicPoolTxReq \<Rightarrow> TransactOpts \<Rightarrow> string + 'x"
  GetMintSharesTransaction :: "'c \<Rightarrow> MintSharesTxReq \<Rightarrow> TransactOpts \<Rightarrow> string + 'x"
  GetBurnSharesTransaction :: "'c \<Rightarrow> BurnSharesTxReq \<Rightarrow> TransactOpts \<Rightarrow> string + 'x"
  GetUpdateLeverageTransaction :: "'c \<Rightarrow> UpdateLeverageTxReq \<Rightarrow> TransactOpts \<Rightarrow> string + 'x"
  GetUpdateMarginTransaction :: "'c \<Rightarrow> UpdateMarginTxReq \<Rightarrow> TransactOpts \<Rightarrow> string + 'x"
  GetAuthToken :: "'c \<Rightarrow> int64 \<Rightarrow> string + string"
  json_Marshal :: "'x \<Rightarrow> string + string"
  render_with_message :: "'x \<Rightarrow> string + string"
  now_plus_28_days_ms :: int64
  now_plus_7_hours :: int64

text \<open>
  The end that most signing functions share: the error of the client's method, the
  error of \<open>json.Marshal\<close>, or the JSON text as the result.
\<close>

definition marshal_response ::
  "('c, 'x) methods \<Rightarrow> string + 'x \<Rightarrow> StringResponse" where
  "marshal_response M r =
     (case r of
        Inl err \<Rightarrow> string_error (''failed to create transaction: '' @ err)
      | Inr tx \<Rightarrow>
          (case json_Marshal M tx of
             Inl err \<Rightarrow> string_error (''failed to marshal transaction: '' @ err)
           | Inr txInfoBytes \<Rightarrow> \<lparr>Result = txInfoBytes, Error = []\<rparr>))"

text \<open>The options of a call: \<open>new(types.TransactOpts)\<close> with the nonce unless it is -1.\<close>

definition nonce_opts :: "int64 \<Rightarrow> TransactOpts" where
  "nonce_opts nonce =
     (let ops = new_TransactOpts
      in if nonce \<noteq> - 1 then ops\<lparr>TransactOpts.Nonce := Some nonce\<rparr> else ops)"

subsection \<open>signChangePubKey\<close>

definition signChangePubKey_request ::
  "('c, 't, 'g) runtime \<Rightarrow> 'c globals \<Rightarrow> js_value list
     \<Rightarrow> (StringResponse, 'c \<times> ChangePubKeyReq \<times> TransactOpts) step" where
  "signChangePubKey_request R st args =
     (if length args \<noteq> 2 then
        Return (string_error ''signChangePubKey requires 2 arguments: pubKey, nonce'')
      else if validateArg args 0 ''pubKey'' \<noteq> None then
        Return (string_error (the (validateArg args 0 ''pubKey'')))
      else if validateArg args 1 ''nonce'' \<noteq> None then
        Return (string_error (the (validateArg args 1 ''nonce'')))
      else
        case txClient st of
          None \<Rightarrow> Return (string_error ''client is not created, call CreateClient() first'')
        | Some client \<Rightarrow>
            let pubKeyStr = js_String (describe R) (args ! 0) in
            (case js_Int (args ! 1) of
               None \<Rightarrow> Panic
             | Some nonce \<Rightarrow>
                 (case hexutil_Decode R pubKeyStr of
                    Inl err \<Rightarrow> Return (string_error (''invalid public key format: '' @ err))
                  | Inr pubKeyBytes \<Rightarrow>
                      if length pubKeyBytes \<noteq> 40 then
                        Return (string_error (''invalid pub key length. expected 40 but got ''
                          @ decimal (length pubKeyBytes)))
                      else
                        let pubKey = copy_slice (replicate 40 0) pubKeyBytes;
                            txInfo = \<lparr>PubKey = pubKey\<rparr>;
                            ops = nonce_opts nonce
                        in Next (client, txInfo, ops))))"

definition signChangePubKey ::
  "('c, 't, 'g) runtime \<Rightarrow> ('c, 'x) methods \<Rightarrow> 'c globals \<Rightarrow> js_value list
     \<Rightarrow> StringResponse option" where
  "signChangePubKey R M st args =
     (case signChangePubKey_request R st args of
        Panic \<Rightarrow> None
      | Return response \<Rightarrow> Some response
      | Next (client, txInfo, ops) \<Rightarrow>
          (case GetChangePubKeyTransaction M client txInfo ops of
             Inl err \<Rightarrow> Some (string_error (''failed to create transaction: '' @ err))
           | Inr tx \<Rightarrow>
               (case render_with_message M tx of
                  Inl e \<Rightarrow> Some (string_error e)
                | Inr txInfoBytes \<Rightarrow> Some \<lparr>Result = txInfoBytes, Error = []\<rparr>)))"

subsection \<open>signCreateOrder\<close>

text \<open>The loop over \<open>argNames\<close>: the first error of \<open>validateArg\<close>, from index \<open>i\<close> on.\<close>

fun validate_argNames :: "js_value list \<Rightarrow> nat \<Rightarrow> string list \<Rightarrow> string option" where
  "validate_argNames args i [] = None"
| "validate_argNames args i (argName # rest) =
     (case validateArg args i argName of
        Some e \<Rightarrow> Some e
      | None \<Rightarrow> validate_argNames args (Suc i) rest)"

definition signCreateOrder_request ::
  "('c, 'x) methods \<Rightarrow> 'c globals \<Rightarrow> js_value list
     \<Rightarrow> (StringResponse, 'c \<times> CreateOrderTxReq \<times> TransactOpts) step" where
  "signCreateOrder_request M st args =
     (let argNames = [''marketIndex'', ''clientOrderIndex'', ''baseAmount'', ''price'', ''isAsk'',
            ''orderType'', ''timeInForce'', ''reduceOnly'', ''triggerPrice'', ''orderExpiry'',
            ''nonce'']
      in
      if length args \<noteq> 11 then
        Return (string_error 
          ''signCreateOrder requires 11 arguments: marketIndex, clientOrderIndex, baseAmount, price, isAsk, orderType, timeInForce, reduceOnly, triggerPrice, orderExpiry, nonce'')
      else if validate_argNames args 0 argNames \<noteq> None then
        Return (string_error (the (validate_argNames args 0 argNames)))
      else
        case txClient st of
          None \<Rightarrow> Return (string_error ''client is not created, call CreateClient() first'')
        | Some client \<Rightarrow>
            (case (js_Int (args ! 0), js_Int (args ! 1), js_Int (args ! 2), js_Int (args ! 3),
                   js_Int (args ! 4), js_Int (args ! 5), js_Int (args ! 6), js_Int (args ! 7),
                   js_Int (args ! 8), js_Int (args ! 9), js_Int (args ! 10)) of
               (Some a0, Some a1, Some a2, Some a3, Some a4, Some a5, Some a6, Some a7, Some a8,
                Some a9, Some a10) \<Rightarrow>
                 let marketIndex = (ucast a0 :: uint8);
                     clientOrderIndex = a1;
                     baseAmount = a2;
                     price = (ucast a3 :: uint32);
                     isAsk = (ucast a4 :: uint8);
                     orderType = (ucast a5 :: uint8);
                     timeInForce = (ucast a6 :: uint8);
                     reduceOnly = (ucast a7 :: uint8);
                     triggerPrice = (ucast a8 :: uint32);
                     orderExpiry = a9;
                     nonce = a10;
                     orderExpiry = (if orderExpiry = - 1 then now_plus_28_days_ms M
                                    else orderExpiry);
                     txInfo = \<lparr>CreateOrderTxReq.MarketIndex = marketIndex,
                               ClientOrderIndex = clientOrderIndex,
                               CreateOrderTxReq.BaseAmount = baseAmount,
                               CreateOrderTxReq.Price = price,
                               CreateOrderTxReq.IsAsk = isAsk,
                               CreateOrderTxReq.Type = orderType,
                               CreateOrderTxReq.TimeInForce = timeInForce,
                               CreateOrderTxReq.ReduceOnly = reduceOnly,
                               CreateOrderTxReq.TriggerPrice = triggerPrice,
                               CreateOrderTxReq.OrderExpiry = orderExpiry\<rparr>;
                     ops = nonce_opts nonce
                 in Next (client, txInfo, ops)
             | _ \<Rightarrow> Panic))"

definition signCreateOrder ::
  "('c, 'x) methods \<Rightarrow> 'c globals \<Rightarrow> js_value list \<Rightarrow> StringResponse option" where
  "signCreateOrder M st args =
     (case signCreateOrder_request M st args of
        Panic \<Rightarrow> None
      | Return response \<Rightarrow> Some response
      | Next (client, txInfo, ops) \<Rightarrow>
          Some (marshal_response M (GetCreateOrderTransaction M client txInfo ops)))"

subsection \<open>signCancelOrder\<close>

definition signCancelOrder_request ::
  "'c globals \<Rightarrow> js_value list
     \<Rightarrow> (StringResponse, 'c \<times> CancelOrderTxReq \<times> TransactOpts) step" where
  "signCancelOrder_request st args =
     (if length args \<noteq> 3 then
        Return (string_error
          ''signCancelOrder requires 3 arguments: marketIndex, orderIndex, nonce'')
      else if validateArg args 0 ''marketIndex'' \<noteq> None then
        Return (string_error (the (validateArg args 0 ''marketIndex'')))
      else if validateArg args 1 ''orderIndex'' \<noteq> None then
        Return (string_error (the (validateArg args 1 ''orderIndex'')))
      else if validateArg args 2 ''nonce'' \<noteq> None then
        Return (string_error (the (validateArg args 2 ''nonce'')))
      else
        case txClient st of
          None \<Rightarrow> Return (string_error ''client is not created, call CreateClient() first'')
        | Some client \<Rightarrow>
            (case (js_Int (args ! 0), js_Int (args ! 1), js_Int (args ! 2)) of
               (Some a0, Some orderIndex, Some nonce) \<Rightarrow>
                 let marketIndex = (ucast a0 :: uint8);
                     txInfo = \<lparr>CancelOrderTxReq.MarketIndex = marketIndex,
                               CancelOrderTxReq.Index = orderIndex\<rparr>;
                     ops = nonce_opts nonce
                 in Next (client, txInfo, ops)
             | _ \<Rightarrow> Panic))"

definition signCancelOrder ::
  "('c, 'x) methods \<Rightarrow> 'c globals \<Rightarrow> js_value list \<Rightarrow> StringResponse option" where
  "signCancelOrder M st args =
     (case signCancelOrder_request st args of
        Panic \<Rightarrow> None
      | Return response \<Rightarrow> Some response
      | Next (client, txInfo, ops) \<Rightarrow>
          Some (marshal_response M (GetCancelOrderTransaction M client txInfo ops)))"

subsection \<open>signWithdraw\<close>

definition signWithdraw_request ::
  "'c globals \<Rightarrow> js_value list
     \<Rightarrow> (StringResponse, 'c \<times> WithdrawTxReq \<times> TransactOpts) step" where
  "signWithdraw_request st args =
     (if length args \<noteq> 2 then
        Return (string_error ''signWithdraw requires 2 arguments: usdcAmount, nonce'')
      else if validateArg args 0 ''usdcAmount'' \<noteq> None then
        Return (string_error (the (validateArg args 0 ''usdcAmount'')))
      else if validateArg args 1 ''nonce'' \<noteq> None then
        Return (string_error (the (validateArg args 1 ''nonce'')))
      else
        case txClient st of
          None \<Rightarrow> Return (string_error ''client is not created, call CreateClient() first'')
        | Some client \<Rightarrow>
            (case (js_Int (args ! 0), js_Int (args ! 1)) of
               (Some a0, Some nonce) \<Rightarrow>
                 let usdcAmount = (ucast a0 :: uint64);
                     txInfo = \<lparr>WithdrawTxReq.USDCAmount = usdcAmount\<rparr>;
                     ops = nonce_opts nonce
                 in Next (client, txInfo, ops)
             | _ \<Rightarrow> Panic))"

definition signWithdraw ::
  "('c, 'x) methods \<Rightarrow> 'c globals \<Rightarrow> js_value list \<Rightarrow> StringResponse option" where
  "signWithdraw M st args =
     (case signWithdraw_request st args of
        Panic \<Rightarrow> None
      | Return response \<Rightarrow> Some response
      | Next (client, txInfo, ops) \<Rightarrow>
          Some (marshal_response M (GetWithdrawTransaction M client txInfo ops)))"

subsection \<open>signCreateSubAccount\<close>

definition signCreateSubAccount_request ::
  "'c globals \<Rightarrow> js_value list \<Rightarrow> (StringResponse, 'c \<times> TransactOpts) step" where
  "signCreateSubAccount_request st args =
     (if length args \<noteq> 1 then
        Return (string_error ''signCreateSubAccount requires 1 argument: nonce'')
      else if validateArg args 0 ''nonce'' \<noteq> None then
        Return (string_error (the (validateArg args 0 ''nonce'')))
      else
        case txClient st of
          None \<Rightarrow> Return (string_error ''client is not created, call CreateClient() first'')
        | Some client \<Rightarrow>
            (case js_Int (args ! 0) of
               Some nonce \<Rightarrow>
                 let ops = nonce_opts nonce
                 in Next (client, ops)
             | None \<Rightarrow> Panic))"

definition signCreateSubAccount ::
  "('c, 'x) methods \<Rightarrow> 'c globals \<Rightarrow> js_value list \<Rightarrow> StringResponse option" where
  "signCreateSubAccount M st args =
     (case signCreateSubAccount_request st args of
        Panic \<Rightarrow> None
      | Return response \<Rightarrow> Some response
      | Next (client, ops) \<Rightarrow>
          Some (marshal_response M (GetCreateSubAccountTransaction M client ops)))"

subsection \<open>signCancelAllOrders\<close>

definition signCancelAllOrders_request ::
  "'c globals \<Rightarrow> js_value list
     \<Rightarrow> (StringResponse, 'c \<times> CancelAllOrdersTxReq \<times> TransactOpts) step" where
  "signCancelAllOrders_request st args =
     (if length args \<noteq> 3 then
        Return (string_error
          ''signCancelAllOrders requires 3 arguments: timeInForce, time, nonce'')
      else if validateArg args 0 ''timeInForce'' \<noteq> None then
        Return (string_error (the (validateArg args 0 ''timeInForce'')))
      else if validateArg args 1 ''time'' \<noteq> None then
        Return (string_error (the (validateArg args 1 ''time'')))
      else if validateArg args 2 ''nonce'' \<noteq> None then
        Return (string_error (the (validateArg args 2 ''nonce'')))
      else
        case txClient st of
          None \<Rightarrow> Return (string_error ''client is not created, call CreateClient() first'')
        | Some client \<Rightarrow>
            (case (js_Int (args ! 0), js_Int (args ! 1), js_Int (args ! 2)) of
               (Some a0, Some t, Some nonce) \<Rightarrow>
                 let timeInForce = (ucast a0 :: uint8);
                     txInfo = \<lparr>CancelAllOrdersTxReq.TimeInForce = timeInForce,
                               CancelAllOrdersTxReq.Time = t\<rparr>;
                     ops = nonce_opts nonce
                 in Next (client, txInfo, ops)
             | _ \<Rightarrow> Panic))"

definition signCancelAllOrders ::
  "('c, 'x) methods \<Rightarrow> 'c globals \<Rightarrow> js_value list \<Rightarrow> StringResponse option" where
  "signCancelAllOrders M st args =
     (case signCancelAllOrders_request st args of
        Panic \<Rightarrow> None
      | Return response \<Rightarrow> Some response
      | Next (client, txInfo, ops) \<Rightarrow>
          Some (marshal_response M (GetCancelAllOrdersTransaction M client txInfo ops)))"

subsection \<open>signModifyOrder\<close>

definition signModifyOrder_request ::
  "'c globals \<Rightarrow> js_value list
     \<Rightarrow> (StringResponse, 'c \<times> ModifyOrderTxReq \<times> TransactOpts) step" where
  "signModifyOrder_request st args =
     (if length args \<noteq> 6 then
        Return (string_error 
          ''signModifyOrder requires 6 arguments: marketIndex, index, baseAmount, price, triggerPrice, nonce'')
      else if validateArg args 0 ''marketIndex'' \<noteq> None then
        Return (string_error (the (validateArg args 0 ''marketIndex'')))
      else if validateArg args 1 ''index'' \<noteq> None then
        Return (string_error (the (validateArg args 1 ''index'')))
      else if validateArg args 2 ''baseAmount'' \<noteq> None then
        Return (string_error (the (validateArg args 2 ''baseAmount'')))
      else if validateArg args 3 ''price'' \<noteq> None then
        Return (string_error (the (validateArg args 3 ''price'')))
      else if validateArg args 4 ''triggerPrice'' \<noteq> None then
        Return (string_error (the (validateArg args 4 ''triggerPrice'')))
      else if validateArg args 5 ''nonce'' \<noteq> None then
        Return (string_error (the (validateArg args 5 ''nonce'')))
      else
        case txClient st of
          None \<Rightarrow> Return (string_error ''client is not created, call CreateClient() first'')
        | Some client \<Rightarrow>
            (case (js_Int (args ! 0), js_Int (args ! 1), js_Int (args ! 2), js_Int (args ! 3),
                   js_Int (args ! 4), js_Int (args ! 5)) of
               (Some a0, Some index, Some baseAmount, Some a3, Some a4, Some nonce) \<Rightarrow>
                 let marketIndex = (ucast a0 :: uint8);
                     price = (ucast a3 :: uint32);
                     triggerPrice = (ucast a4 :: uint32);
                     txInfo = \<lparr>ModifyOrderTxReq.MarketIndex = marketIndex,
                               ModifyOrderTxReq.Index = index,
                               ModifyOrderTxReq.BaseAmount = baseAmount,
                               ModifyOrderTxReq.Price = price,
                               ModifyOrderTxReq.TriggerPrice = triggerPrice\<rparr>;
                     ops = nonce_opts nonce
                 in Next (client, txInfo, ops)
             | _ \<Rightarrow> Panic))"

definition signModifyOrder ::
  "('c, 'x) methods \<Rightarrow> 'c globals \<Rightarrow> js_value list \<Rightarrow> StringResponse option" where
  "signModifyOrder M st args =
     (case signModifyOrder_request st args of
        Panic \<Rightarrow> None
      | Return response \<Rightarrow> Some response
      | Next (client, txInfo, ops) \<Rightarrow>
          Some (marshal_response M (GetModifyOrderTransaction M client txInfo ops)))"

subsection \<open>signCreatePublicPool\<close>

definition signCreatePublicPool_request ::
  "'c globals \<Rightarrow> js_value list
     \<Rightarrow> (StringResponse, 'c \<times> CreatePublicPoolTxReq \<times> TransactOpts) step" where
  "signCreatePublicPool_request st args =
     (if length args \<noteq> 4 then
        Return (string_error 
          ''signCreatePublicPool requires 4 arguments: operatorFee, initialTotalShares, minOperatorShareRate, nonce'')
      else if validateArg args 0 ''operatorFee'' \<noteq> None then
        Return (string_error (the (validateArg args 0 ''operatorFee'')))
      else if validateArg args 1 ''initialTotalShares'' \<noteq> None then
        Return (string_error (the (validateArg args 1 ''initialTotalShares'')))
      else if validateArg args 2 ''minOperatorShareRate'' \<noteq> None then
        Return (string_error (the (validateArg args 2 ''minOperatorShareRate'')))
      else if validateArg args 3 ''nonce'' \<noteq> None then
        Return (string_error (the (validateArg args 3 ''nonce'')))
      else
        case txClient st of
          None \<Rightarrow> Return (string_error ''client is not created, call CreateClient() first'')
        | Some client \<Rightarrow>
            (case (js_Int (args ! 0), js_Int (args ! 1), js_Int (args ! 2), js_Int (args ! 3)) of
               (Some operatorFee, Some initialTotalShares, Some minOperatorShareRate,
                Some nonce) \<Rightarrow>
                 let txInfo = \<lparr>CreatePublicPoolTxReq.OperatorFee = operatorFee,
                               CreatePublicPoolTxReq.InitialTotalShares = initialTotalShares,
                               CreatePublicPoolTxReq.MinOperatorShareRate =
                                 minOperatorShareRate\<rparr>;
                     ops = nonce_opts nonce
                 in Next (client, txInfo, ops)
             | _ \<Rightarrow> Panic))"

definition signCreatePublicPool ::
  "('c, 'x) methods \<Rightarrow> 'c globals \<Rightarrow> js_value list \<Rightarrow> StringResponse option" where
  "signCreatePublicPool M st args =
     (case signCreatePublicPool_request st args of
        Panic \<Rightarrow> None
      | Return response \<Rightarrow> Some response
      | Next (client, txInfo, ops) \<Rightarrow>
          Some (marshal_response M (GetCreatePublicPoolTransaction M client txInfo ops)))"

subsection \<open>signUpdatePublicPool\<close>

definition signUpdatePublicPool_request ::
  "'c globals \<Rightarrow> js_value list
     \<Rightarrow> (StringResponse, 'c \<times> UpdatePublicPoolTxReq \<times> TransactOpts) step" where
  "signUpdatePublicPool_request st args =
     (if length args \<noteq> 5 then
        Return (string_error 
          ''signUpdatePublicPool requires 5 arguments: publicPoolIndex, status, operatorFee, minOperatorShareRate, nonce'')
      else if validateArg args 0 ''publicPoolIndex'' \<noteq> None then
        Return (string_error (the (validateArg args 0 ''publicPoolIndex'')))
      else if validateArg args 1 ''status'' \<noteq> None then
        Return (string_error (the (validateArg args 1 ''status'')))
      else if validateArg args 2 ''operatorFee'' \<noteq> None then
        Return (string_error (the (validateArg args 2 ''operatorFee'')))
      else if validateArg args 3 ''minOperatorShareRate'' \<noteq> None then
        Return (string_error (the (validateArg args 3 ''minOperatorShareRate'')))
      else if validateArg args 4 ''nonce'' \<noteq> None then
        Return (string_error (the (validateArg args 4 ''nonce'')))
      else
        case txClient st of
          None \<Rightarrow> Return (string_error ''client is not created, call CreateClient() first'')
        | Some client \<Rightarrow>
            (case (js_Int (args ! 0), js_Int (args ! 1), js_Int (args ! 2), js_Int (args ! 3),
                   js_Int (args ! 4)) of
               (Some publicPoolIndex, Some a1, Some operatorFee, Some minOperatorShareRate,
                Some nonce) \<Rightarrow>
                 let status = (ucast a1 :: uint8);
                     txInfo = \<lparr>UpdatePublicPoolTxReq.PublicPoolIndex = publicPoolIndex,
                               UpdatePublicPoolTxReq.Status = status,
                               UpdatePublicPoolTxReq.OperatorFee = operatorFee,
                               UpdatePublicPoolTxReq.MinOperatorShareRate =
                                 minOperatorShareRate\<rparr>;
                     ops = nonce_opts nonce
                 in Next (client, txInfo, ops)
             | _ \<Rightarrow> Panic))"

definition signUpdatePublicPool ::
  "('c, 'x) methods \<Rightarrow> 'c globals \<Rightarrow> js_value list \<Rightarrow> StringResponse option" where
  "signUpdatePublicPool M st args =
     (case signUpdatePublicPool_request st args of
        Panic \<Rightarrow> None
      | Return response \<Rightarrow> Some response
      | Next (client, txInfo, ops) \<Rightarrow>
          Some (marshal_response M (GetUpdatePublicPoolTransaction M client txInfo ops)))"

subsection \<open>signMintShares and signBurnShares\<close>

definition signMintShares_request ::
  "'c globals \<Rightarrow> js_value list
     \<Rightarrow> (StringResponse, 'c \<times> MintSharesTxReq \<times> TransactOpts) step" where
  "signMintShares_request st args =
     (if length args \<noteq> 3 then
        Return (string_error
          ''signMintShares requires 3 arguments: publicPoolIndex, shareAmount, nonce'')
      else if validateArg args 0 ''publicPoolIndex'' \<noteq> None then
        Return (string_error (the (validateArg args 0 ''publicPoolIndex'')))
      else if validateArg args 1 ''shareAmount'' \<noteq> None then
        Return (string_error (the (validateArg args 1 ''shareAmount'')))
      else if validateArg args 2 ''nonce'' \<noteq> None then
        Return (string_error (the (validateArg args 2 ''nonce'')))
      else
        case txClient st of
          None \<Rightarrow> Return (string_error ''client is not created, call CreateClient() first'')
        | Some client \<Rightarrow>
            (case (js_Int (args ! 0), js_Int (args ! 1), js_Int (args ! 2)) of
               (Some publicPoolIndex, Some shareAmount, Some nonce) \<Rightarrow>
                 let txInfo = \<lparr>MintSharesTxReq.PublicPoolIndex = publicPoolIndex,
                               MintSharesTxReq.ShareAmount = shareAmount\<rparr>;
                     ops = nonce_opts nonce
                 in Next (client, txInfo, ops)
             | _ \<Rightarrow> Panic))"

definition signMintShares ::
  "('c, 'x) methods \<Rightarrow> 'c globals \<Rightarrow> js_value list \<Rightarrow> StringResponse option" where
  "signMintShares M st args =
     (case signMintShares_request st args of
        Panic \<Rightarrow> None
      | Return response \<Rightarrow> Some response
      | Next (client, txInfo, ops) \<Rightarrow>
          Some (marshal_response M (GetMintSharesTransaction M client txInfo ops)))"

definition signBurnShares_request ::
  "'c globals \<Rightarrow> js_value list
     \<Rightarrow> (StringResponse, 'c \<times> BurnSharesTxReq \<times> TransactOpts) step" where
  "signBurnShares_request st args =
     (if length args \<noteq> 3 then
        Return (string_error
          ''signBurnShares requires 3 arguments: publicPoolIndex, shareAmount, nonce'')
      else if validateArg args 0 ''publicPoolIndex'' \<noteq> None then
        Return (string_error (the (validateArg args 0 ''publicPoolIndex'')))
      else if validateArg args 1 ''shareAmount'' \<noteq> None then
        Return (string_error (the (validateArg args 1 ''shareAmount'')))
      else if validateArg args 2 ''nonce'' \<noteq> None then
        Return (string_error (the (validateArg args 2 ''nonce'')))
      else
        case txClient st of
          None \<Rightarrow> Return (string_error ''client is not created, call CreateClient() first'')
        | Some client \<Rightarrow>
            (case (js_Int (args ! 0), js_Int (args ! 1), js_Int (args ! 2)) of
               (Some publicPoolIndex, Some shareAmount, Some nonce) \<Rightarrow>
                 let txInfo = \<lparr>BurnSharesTxReq.PublicPoolIndex = publicPoolIndex,
                               BurnSharesTxReq.ShareAmount = shareAmount\<rparr>;
                     ops = nonce_opts nonce
                 in Next (client, txInfo, ops)
             | _ \<Rightarrow> Panic))"

definition signBurnShares ::
  "('c, 'x) methods \<Rightarrow> 'c globals \<Rightarrow> js_value list \<Rightarrow> StringResponse option" where
  "signBurnShares M st args =
     (case signBurnShares_request st args of
        Panic \<Rightarrow> None
      | Return response \<Rightarrow> Some response
      | Next (client, txInfo, ops) \<Rightarrow>
          Some (marshal_response M (GetBurnSharesTransaction M client txInfo ops)))"

subsection \<open>signUpdateLeverage and signUpdateMargin\<close>

definition signUpdateLeverage_request ::
  "'c globals \<Rightarrow> js_value list
     \<Rightarrow> (StringResponse, 'c \<times> UpdateLeverageTxReq \<times> TransactOpts) step" where
  "signUpdateLeverage_request st args =
     (if length args \<noteq> 4 then
        Return (string_error 
          ''signUpdateLeverage requires 4 arguments: marketIndex, initialMarginFraction, marginMode, nonce'')
      else if validateArg args 0 ''marketIndex'' \<noteq> None then
        Return (string_error (the (validateArg args 0 ''marketIndex'')))
      else if validateArg args 1 ''initialMarginFraction'' \<noteq> None then
        Return (string_error (the (validateArg args 1 ''initialMarginFraction'')))
      else if validateArg args 2 ''marginMode'' \<noteq> None then
        Return (string_error (the (validateArg args 2 ''marginMode'')))
      else if validateArg args 3 ''nonce'' \<noteq> None then
        Return (string_error (the (validateArg args 3 ''nonce'')))
      else
        case txClient st of
          None \<Rightarrow> Return (string_error ''client is not created, call CreateClient() first'')
        | Some client \<Rightarrow>
            (case (js_Int (args ! 0), js_Int (args ! 1), js_Int (args ! 2), js_Int (args ! 3)) of
               (Some a0, Some a1, Some a2, Some nonce) \<Rightarrow>
                 let marketIndex = (ucast a0 :: uint8);
                     initialMarginFraction = (ucast a1 :: uint16);
                     marginMode = (ucast a2 :: uint8);
                     txInfo = \<lparr>UpdateLeverageTxReq.MarketIndex = marketIndex,
                               UpdateLeverageTxReq.InitialMarginFraction = initialMarginFraction,
                               UpdateLeverageTxReq.MarginMode = marginMode\<rparr>;
                     ops = nonce_opts nonce
                 in Next (client, txInfo, ops)
             | _ \<Rightarrow> Panic))"

definition signUpdateLeverage ::
  "('c, 'x) methods \<Rightarrow> 'c globals \<Rightarrow> js_value list \<Rightarrow> StringResponse option" where
  "signUpdateLeverage M st args =
     (case signUpdateLeverage_request st args of
        Panic \<Rightarrow> None
      | Return response \<Rightarrow> Some response
      | Next (client, txInfo, ops) \<Rightarrow>
          Some (marshal_response M (GetUpdateLeverageTransaction M client txInfo ops)))"

definition signUpdateMargin_request ::
  "'c globals \<Rightarrow> js_value list
     \<Rightarrow> (StringResponse, 'c \<times> UpdateMarginTxReq \<times> TransactOpts) step" where
  "signUpdateMargin_request st args =
     (if length args \<noteq> 4 then
        Return (string_error
          ''signUpdateMargin requires 4 arguments: marketIndex, usdcAmount, direction, nonce'')
      else if validateArg args 0 ''marketIndex'' \<noteq> None then
        Return (string_error (the (validateArg args 0 ''marketIndex'')))
      else if validateArg args 1 ''usdcAmount'' \<noteq> None then
        Return (string_error (the (validateArg args 1 ''usdcAmount'')))
      else if validateArg args 2 ''direction'' \<noteq> None then
        Return (string_error (the (validateArg args 2 ''direction'')))
      else if validateArg args 3 ''nonce'' \<noteq> None then
        Return (string_error (the (validateArg args 3 ''nonce'')))
      else
        case txClient st of
          None \<Rightarrow> Return (string_error ''client is not created, call CreateClient() first'')
        | Some client \<Rightarrow>
            (case (js_Int (args ! 0), js_Int (args ! 1), js_Int (args ! 2), js_Int (args ! 3)) of
               (Some a0, Some usdcAmount, Some a2, Some nonce) \<Rightarrow>
                 let marketIndex = (ucast a0 :: uint8);
                     direction = (ucast a2 :: uint8);
                     txInfo = \<lparr>UpdateMarginTxReq.MarketIndex = marketIndex,
                               UpdateMarginTxReq.USDCAmount = usdcAmount,
                               UpdateMarginTxReq.Direction = direction\<rparr>;
                     ops = nonce_opts nonce
                 in Next (client, txInfo, ops)
             | _ \<Rightarrow> Panic))"

definition signUpdateMargin ::
  "('c, 'x) methods \<Rightarrow> 'c globals \<Rightarrow> js_value list \<Rightarrow> StringResponse option" where
  "signUpdateMargin M st args =
     (case signUpdateMargin_request st args of
        Panic \<Rightarrow> None
      | Return response \<Rightarrow> Some response
      | Next (client, txInfo, ops) \<Rightarrow>
          Some (marshal_response M (GetUpdateMarginTransaction M client txInfo ops)))"

subsection \<open>createAuthToken\<close>

text \<open>
  The deadline is optional: with no argument it is 0, and 0 stands for seven hours
  from now. \<open>Value.Int\<close> is applied to the first argument without a check, so it panics
  on \<open>null\<close> and \<open>undefined\<close> as well.
\<close>

definition createAuthToken_request ::
  "('c, 'x) methods \<Rightarrow> 'c globals \<Rightarrow> js_value list \<Rightarrow> (StringResponse, 'c \<times> int64) step" where
  "createAuthToken_request M st args =
     (case (if length args > 0 then js_Int (args ! 0) else Some 0) of
        None \<Rightarrow> Panic
      | Some deadline \<Rightarrow>
          (case txClient st of
             None \<Rightarrow> Return (string_error ''client is not created, call CreateClient() first'')
           | Some client \<Rightarrow>
               let deadline = (if deadline = 0 then now_plus_7_hours M else deadline)
               in Next (client, deadline)))"

definition createAuthToken ::
  "('c, 'x) methods \<Rightarrow> 'c globals \<Rightarrow> js_value list \<Rightarrow> StringResponse option" where
  "createAuthToken M st args =
     (case createAuthToken_request M st args of
        Panic \<Rightarrow> None
      | Return response \<Rightarrow> Some response
      | Next (client, deadline) \<Rightarrow>
          (case GetAuthToken M client deadline of
             Inl err \<Rightarrow> Some (string_error (''failed to create auth token: '' @ err))
           | Inr authToken \<Rightarrow> Some \<lparr>Result = authToken, Error = []\<rparr>))"

subsection \<open>The signing functions as a family\<close>

text \<open>
  The sixteen functions that sign with the active client, as \<open>main\<close> exports them:
  fifteen sign a transaction, \<open>createAuthToken\<close> signs an auth token.
\<close>

datatype sign_op =
    SignChangePubKey
  | SignCreateOrder
  | SignCancelOrder
  | SignWithdraw
  | SignCreateSubAccount
  | SignCancelAllOrders
  | SignModifyOrder
  | SignTransfer
  | SignCreatePublicPool
  | SignUpdatePublicPool
  | SignMintShares
  | SignBurnShares
  | SignUpdateLeverage
  | SignUpdateMargin
  | SignCreateGroupedOrders
  | CreateAuthToken

fun sign ::
  "('c, 't, 'g) runtime \<Rightarrow> ('c, 'x) methods \<Rightarrow> sign_op \<Rightarrow> 'c globals \<Rightarrow> js_value list
     \<Rightarrow> StringResponse option" where
  "sign R M SignChangePubKey st args = signChangePubKey R M st args"
| "sign R M SignCreateOrder st args = signCreateOrder M st args"
| "sign R M SignCancelOrder st args = signCancelOrder M st args"
| "sign R M SignWithdraw st args = signWithdraw M st args"
| "sign R M SignCreateSubAccount st args = signCreateSubAccount M st args"
| "sign R M SignCancelAllOrders st args = signCancelAllOrders M st args"
| "sign R M SignModifyOrder st args = signModifyOrder M st args"
| "sign R M SignTransfer st args = signTransfer R st args"
| "sign R M SignCreatePublicPool st args = signCreatePublicPool M st args"
| "sign R M SignUpdatePublicPool st args = signUpdatePublicPool M st args"
| "sign R M SignMintShares st args = signMintShares M st args"
| "sign R M SignBurnShares st args = signBurnShares M st args"
| "sign R M SignUpdateLeverage st args = signUpdateLeverage M st args"
| "sign R M SignUpdateMargin st args = signUpdateMargin M st args"
| "sign R M SignCreateGroupedOrders st args = signCreateGroupedOrders R st args"
| "sign R M CreateAuthToken st args = createAuthToken M st args"

text \<open>What a signing function asks of the client: the method and its arguments.\<close>

datatype request =
    ChangePubKeyRequest ChangePubKeyReq TransactOpts
  | CreateOrderRequest CreateOrderTxReq TransactOpts
  | CancelOrderRequest CancelOrderTxReq TransactOpts
  | WithdrawRequest WithdrawTxReq TransactOpts
  | CreateSubAccountRequest TransactOpts
  | CancelAllOrdersRequest CancelAllOrdersTxReq TransactOpts
  | ModifyOrderRequest ModifyOrderTxReq TransactOpts
  | TransferRequest TransferTxReq TransactOpts
  | CreatePublicPoolRequest CreatePublicPoolTxReq TransactOpts
  | UpdatePublicPoolRequest UpdatePublicPoolTxReq TransactOpts
  | MintSharesRequest MintSharesTxReq TransactOpts
  | BurnSharesRequest BurnSharesTxReq TransactOpts
  | UpdateLeverageRequest UpdateLeverageTxReq TransactOpts
  | UpdateMarginRequest UpdateMarginTxReq TransactOpts
  | GroupedOrdersRequest CreateGroupedOrdersTxReq TransactOpts
  | AuthTokenRequest int64

text \<open>
  How far a signing function gets before it calls the client: a panic, an early
  response, or a request together with the client it is about to call.
\<close>

definition with_request ::
  "('a \<Rightarrow> 'b \<Rightarrow> request) \<Rightarrow> ('r, 'c \<times> 'a \<times> 'b) step \<Rightarrow> ('r, 'c \<times> request) step" where
  "with_request mk s =
     (case s of
        Panic \<Rightarrow> Panic
      | Return r \<Rightarrow> Return r
      | Next (client, txInfo, ops) \<Rightarrow> Next (client, mk txInfo ops))"

definition with_request1 ::
  "('a \<Rightarrow> request) \<Rightarrow> ('r, 'c \<times> 'a) step \<Rightarrow> ('r, 'c \<times> request) step" where
  "with_request1 mk s =
     (case s of
        Panic \<Rightarrow> Panic
      | Return r \<Rightarrow> Return r
      | Next (client, a) \<Rightarrow> Next (client, mk a))"

fun sign_request ::
  "('c, 't, 'g) runtime \<Rightarrow> ('c, 'x) methods \<Rightarrow> sign_op \<Rightarrow> 'c globals \<Rightarrow> js_value list
     \<Rightarrow> (StringResponse, 'c \<times> request) step" where
  "sign_request R M SignChangePubKey st args =
     with_request ChangePubKeyRequest (signChangePubKey_request R st args)"
| "sign_request R M SignCreateOrder st args =
     with_request CreateOrderRequest (signCreateOrder_request M st args)"
| "sign_request R M SignCancelOrder st args =
     with_request CancelOrderRequest (signCancelOrder_request st args)"
| "sign_request R M SignWithdraw st args =
     with_request WithdrawRequest (signWithdraw_request st args)"
| "sign_request R M SignCreateSubAccount st args =
     with_request1 CreateSubAccountRequest (signCreateSubAccount_request st args)"
| "sign_request R M SignCancelAllOrders st args =
     with_request CancelAllOrdersRequest (signCancelAllOrders_request st args)"
| "sign_request R M SignModifyOrder st args =
     with_request ModifyOrderRequest (signModifyOrder_request st args)"
| "sign_request R M SignTransfer st args =
     with_request TransferRequest (signTransfer_request R st args)"
| "sign_request R M SignCreatePublicPool st args =
     with_request CreatePublicPoolRequest (signCreatePublicPool_request st args)"
| "sign_request R M SignUpdatePublicPool st args =
     with_request UpdatePublicPoolRequest (signUpdatePublicPool_request st args)"
| "sign_request R M SignMintShares st args =
     with_request MintSharesRequest (signMintShares_request st args)"
| "sign_request R M SignBurnShares st args =
     with_request BurnSharesRequest (signBurnShares_request st args)"
| "sign_request R M SignUpdateLeverage st args =
     with_request UpdateLeverageRequest (signUpdateLeverage_request st args)"
| "sign_request R M SignUpdateMargin st args =
     with_request UpdateMarginRequest (signUpdateMargin_request st args)"
| "sign_request R M SignCreateGroupedOrders st args =
     with_request GroupedOrdersRequest (signCreateGroupedOrders_request R st args)"
| "sign_request R M CreateAuthToken st args =
     with_request1 AuthTokenRequest (createAuthToken_request M st args)"

text \<open>
  What it means that a request is served by the client \<open>c\<close>: the method that the
  request belongs to is called on \<open>c\<close> with the arguments of the request, and the
  response is made from what the method returns. The signing functions are compared
  with this below.
\<close>

fun served_by ::
  "('c, 't, 'g) runtime \<Rightarrow> ('c, 'x) methods \<Rightarrow> 'c \<Rightarrow> request \<Rightarrow> StringResponse" where
  "served_by R M c (ChangePubKeyRequest txInfo ops) =
     (case GetChangePubKeyTransaction M c txInfo ops of
        Inl err \<Rightarrow> string_error (''failed to create transaction: '' @ err)
      | Inr tx \<Rightarrow>
          (case render_with_message M tx of
             Inl e \<Rightarrow> string_error e
           | Inr txInfoBytes \<Rightarrow> \<lparr>Result = txInfoBytes, Error = []\<rparr>))"
| "served_by R M c (CreateOrderRequest txInfo ops) =
     marshal_response M (GetCreateOrderTransaction M c txInfo ops)"
| "served_by R M c (CancelOrderRequest txInfo ops) =
     marshal_response M (GetCancelOrderTransaction M c txInfo ops)"
| "served_by R M c (WithdrawRequest txInfo ops) =
     marshal_response M (GetWithdrawTransaction M c txInfo ops)"
| "served_by R M c (CreateSubAccountRequest ops) =
     marshal_response M (GetCreateSubAccountTransaction M c ops)"
| "served_by R M c (CancelAllOrdersRequest txInfo ops) =
     marshal_response M (GetCancelAllOrdersTransaction M c txInfo ops)"
| "served_by R M c (ModifyOrderRequest txInfo ops) =
     marshal_response M (GetModifyOrderTransaction M c txInfo ops)"
| "served_by R M c (TransferRequest txInfo ops) =
     (case GetTransferTransaction R c txInfo ops of
        Inl err \<Rightarrow> string_error (''failed to create transaction: '' @ err)
      | Inr tx \<Rightarrow>
          (case render_transfer R tx of
             Inl e \<Rightarrow> string_error e
           | Inr txInfoBytes \<Rightarrow> \<lparr>Result = txInfoBytes, Error = []\<rparr>))"
| "served_by R M c (CreatePublicPoolRequest txInfo ops) =
     marshal_response M (GetCreatePublicPoolTransaction M c txInfo ops)"
| "served_by R M c (UpdatePublicPoolRequest txInfo ops) =
     marshal_response M (GetUpdatePublicPoolTransaction M c txInfo ops)"
| "served_by R M c (MintSharesRequest txInfo ops) =
     marshal_response M (GetMintSharesTransaction M c txInfo ops)"
| "served_by R M c (BurnSharesRequest txInfo ops) =
     marshal_response M (GetBurnSharesTransaction M c txInfo ops)"
| "served_by R M c (UpdateLeverageRequest txInfo ops) =
     marshal_response M (GetUpdateLeverageTransaction M c txInfo ops)"
| "served_by R M c (UpdateMarginRequest txInfo ops) =
     marshal_response M (GetUpdateMarginTransaction M c txInfo ops)"
| "served_by R M c (GroupedOrdersRequest txInfo ops) =
     (case GetCreateGroupedOrdersTransaction R c txInfo ops of
        Inl err \<Rightarrow> string_error (''failed to create transaction: '' @ err)
      | Inr tx \<Rightarrow>
          (case render_grouped R tx of
             Inl e \<Rightarrow> string_error e
           | Inr txInfoBytes \<Rightarrow> \<lparr>Result = txInfoBytes, Error = []\<rparr>))"
| "served_by R M c (AuthTokenRequest deadline) =
     (case GetAuthToken M c deadline of
        Inl err \<Rightarrow> string_error (''failed to create auth token: '' @ err)
      | Inr authToken \<Rightarrow> \<lparr>Result = authToken, Error = []\<rparr>)"

subsection \<open>Sequences of signing, switching and creating calls\<close>

datatype event =
    Sign sign_op "js_value list"
  | Switch "js_value list"
  | Create "js_value list"

datatype outcome =
    Signed "StringResponse option"
  | Answered "ErrorResponse option"

text \<open>
  A signing function assigns neither global, so the state it leaves is the one it found.
  Of the twenty exported functions the two that are not modelled, \<open>generateAPIKey\<close>
  and \<open>checkClient\<close>, assign neither global either.
\<close>

fun exec ::
  "('c, 't, 'g) runtime \<Rightarrow> ('c, 'x) methods \<Rightarrow> 'c globals \<Rightarrow> event \<Rightarrow> 'c globals \<times> outcome" where
  "exec R M st (Sign op args) = (st, Signed (sign R M op st args))"
| "exec R M st (Switch args) =
     (case switchAPIKey st args of (st', r) \<Rightarrow> (st', Answered r))"
| "exec R M st (Create args) =
     (case createClient R st args of (st', r) \<Rightarrow> (st', Answered r))"

fun run_events ::
  "('c, 't, 'g) runtime \<Rightarrow> ('c, 'x) methods \<Rightarrow> 'c globals \<Rightarrow> event list
     \<Rightarrow> 'c globals \<times> outcome list" where
  "run_events R M st [] = (st, [])"
| "run_events R M st (ev # evs) =
     (case exec R M st ev of (st1, out) \<Rightarrow>
        (case run_events R M st1 evs of (st2, outs) \<Rightarrow> (st2, out # outs)))"

text \<open>
  \<open>createClient\<close> gets as far as the call of \<open>NewTxClient\<close>: five arguments, none of
  them \<open>null\<close> or \<open>undefined\<close>, the last three numbers, the account index positive.
\<close>

definition reaches_NewTxClient :: "js_value list \<Rightarrow> bool" where
  "reaches_NewTxClient args \<longleftrightarrow>
     length args = 5 \<and>
     validateArg args 0 ''url'' = None \<and>
     validateArg args 1 ''privateKey'' = None \<and>
     validateArg args 2 ''chainId'' = None \<and>
     validateArg args 3 ''apiKeyIndex'' = None \<and>
     validateArg args 4 ''accountIndex'' = None \<and>
     js_Int (args ! 2) \<noteq> None \<and> js_Int (args ! 3) \<noteq> None \<and>
     (case js_Int (args ! 4) of None \<Rightarrow> False | Some accountIndex \<Rightarrow> \<not> accountIndex <=s 0)"

text \<open>
  The calls between which the active client is followed: any signing call, a
  \<open>switchAPIKey\<close> that is not successful, a \<open>createClient\<close> that returns before it
  calls \<open>NewTxClient\<close>.
\<close>

fun before_next_change :: "'c globals \<Rightarrow> event \<Rightarrow> bool" where
  "before_next_change st (Sign op args) = True"
| "before_next_change st (Switch args) = (\<not> successful (snd (switchAPIKey st args)))"
| "before_next_change st (Create args) = (\<not> reaches_NewTxClient args)"

text \<open>What a call returns in the state \<open>st\<close>.\<close>

definition outcome_in ::
  "('c, 't, 'g) runtime \<Rightarrow> ('c, 'x) methods \<Rightarrow> 'c globals \<Rightarrow> event \<Rightarrow> outcome" where
  "outcome_in R M st ev = snd (exec R M st ev)"

subsection \<open>Concrete inputs of the signing functions\<close>

text \<open>
  An instance of the methods in which every signed transaction, and the auth token,
  is a text that names the client that signed it; the runtime below does the same
  for a transfer.
\<close>

definition signed_by :: "string \<Rightarrow> nat \<Rightarrow> string + string" where
  "signed_by kind client = Inr (kind @ '' signed by client '' @ decimal client)"

definition sample_methods :: "(nat, string) methods" where
  "sample_methods =
     \<lparr>GetChangePubKeyTransaction = (\<lambda>client txInfo ops. signed_by ''change pub key'' client),
      GetCreateOrderTransaction = (\<lambda>client txInfo ops. signed_by ''create order'' client),
      GetCancelOrderTransaction = (\<lambda>client txInfo ops. signed_by ''cancel order'' client),
      GetWithdrawTransaction = (\<lambda>client txInfo ops. signed_by ''withdraw'' client),
      GetCreateSubAccountTransaction = (\<lambda>client ops. signed_by ''create sub account'' client),
      GetCancelAllOrdersTransaction = (\<lambda>client txInfo ops. signed_by ''cancel all orders'' client),
      GetModifyOrderTransaction = (\<lambda>client txInfo ops. signed_by ''modify order'' client),
      GetCreatePublicPoolTransaction =
        (\<lambda>client txInfo ops. signed_by ''create public pool'' client),
      GetUpdatePublicPoolTransaction =
        (\<lambda>client txInfo ops. signed_by ''update public pool'' client),
      GetMintSharesTransaction = (\<lambda>client txInfo ops. signed_by ''mint shares'' client),
      GetBurnSharesTransaction = (\<lambda>client txInfo ops. signed_by ''burn shares'' client),
      GetUpdateLeverageTransaction = (\<lambda>client txInfo ops. signed_by ''update leverage'' client),
      GetUpdateMarginTransaction = (\<lambda>client txInfo ops. signed_by ''update margin'' client),
      GetAuthToken = (\<lambda>client deadline. signed_by ''auth token'' client),
      json_Marshal = Inr,
      render_with_message = Inr,
      now_plus_28_days_ms = 1702419200000,
      now_plus_7_hours = 1700025200\<rparr>"

definition naming_runtime :: "(nat, string, string) runtime" where
  "naming_runtime =
     (sample_runtime [])\<lparr>GetTransferTransaction :=
        (\<lambda>client txInfo ops. signed_by ''transfer'' client)\<rparr>"

definition sample_private_key :: string where
  "sample_private_key =
     ''0100000000000000000000000000000000000000000000000000000000000000000000000000000000''"

definition sample_transfer_args :: "js_value list" where
  "sample_transfer_args =
     [JsNumber 8, JsNumber 1000000, JsNumber 1000, JsString [], JsNumber 201]"

section \<open>The update-margin transaction (package txtypes)\<close>

record L2UpdateMarginTxInfo =
  AccountIndex :: int64
  ApiKeyIndex :: uint8
  MarketIndex :: uint8
  USDCAmount :: int64
  Direction :: uint8
  ExpiredAt :: int64
  Nonce :: int64
  Sig :: "byte list"
  SignedHash :: string

text \<open>
  The bounds and the transaction-type tag are package constants whose declarations are
  not among the sources; they are a parameter of the model. Each constant has the type
  of the field it is compared with (Go converts an untyped constant to the type of the
  other operand). \<open>TxTypeL2UpdateMargin\<close> is returned by \<open>GetTxType\<close> as \<open>uint8\<close> and
  passed to \<open>g.FromUint32\<close>, so it is a \<open>uint8\<close> value widened there.
\<close>

record constants =
  MinAccountIndex :: int64
  MaxAccountIndex :: int64
  MaxApiKeyIndex :: uint8
  MinMarketIndex :: uint8
  MaxMarketIndex :: uint8
  MinNonce :: int64
  MaxTimestamp :: int64
  TxTypeL2UpdateMargin :: uint8

text \<open>The error values \<open>Validate\<close> returns; \<open>nil\<close> is \<open>None\<close>.\<close>

datatype error =
    ErrFromAccountIndexTooLow
  | ErrFromAccountIndexTooHigh
  | ErrApiKeyIndexTooHigh
  | ErrMarketIndexTooLow
  | ErrMarketIndexTooHigh
  | ErrUSDCAmountIsZero
  | ErrNonceTooLow
  | ErrExpiredAtInvalid

definition Validate :: "constants \<Rightarrow> L2UpdateMarginTxInfo \<Rightarrow> error option" where
  "Validate K txInfo =
     (if AccountIndex txInfo <=s MinAccountIndex K then Some ErrFromAccountIndexTooLow
      else if MaxAccountIndex K <s AccountIndex txInfo then Some ErrFromAccountIndexTooHigh
      else if ApiKeyIndex txInfo > MaxApiKeyIndex K then Some ErrApiKeyIndexTooHigh
      else if MarketIndex txInfo < MinMarketIndex K then Some ErrMarketIndexTooLow
      else if MarketIndex txInfo > MaxMarketIndex K then Some ErrMarketIndexTooHigh
      else if USDCAmount txInfo = 0 then Some ErrUSDCAmountIsZero
      else if Nonce txInfo <s MinNonce K then Some ErrNonceTooLow
      else if ExpiredAt txInfo <s 0 \<or> MaxTimestamp K <s ExpiredAt txInfo
        then Some ErrExpiredAtInvalid
      else None)"

definition GetTxType :: "constants \<Rightarrow> L2UpdateMarginTxInfo \<Rightarrow> uint8" where
  "GetTxType K txInfo = TxTypeL2UpdateMargin K"

definition GetTxHash :: "L2UpdateMarginTxInfo \<Rightarrow> string" where
  "GetTxHash txInfo = SignedHash txInfo"

subsection \<open>Hash\<close>

text \<open>
  The Goldilocks field and the Poseidon2 hash come from an external library. The model
  takes its four functions as a parameter: the two encoders into field elements
  \<open>'e\<close>, the sponge into the quintic extension \<open>'h\<close>, and its serialisation.
\<close>

record ('e, 'h) poseidon =
  FromUint32 :: "uint32 \<Rightarrow> 'e"
  FromInt64 :: "int64 \<Rightarrow> 'e"
  HashToQuinticExtension :: "'e list \<Rightarrow> 'h"
  ToLittleEndianBytes :: "'h \<Rightarrow> byte list"

text \<open>The slice \<open>elems\<close> as \<open>Hash\<close> has built it when it calls the sponge.\<close>

definition Hash_elems ::
  "('e, 'h) poseidon \<Rightarrow> constants \<Rightarrow> L2UpdateMarginTxInfo \<Rightarrow> uint32 \<Rightarrow> 'e list" where
  "Hash_elems g K txInfo lighterChainId =
     (let elems = [];
          elems = append_slice elems (FromUint32 g lighterChainId);
          elems = append_slice elems (FromUint32 g (ucast (TxTypeL2UpdateMargin K)));
          elems = append_slice elems (FromInt64 g (Nonce txInfo));
          elems = append_slice elems (FromInt64 g (ExpiredAt txInfo));
          elems = append_slice elems (FromInt64 g (AccountIndex txInfo));
          elems = append_slice elems (FromUint32 g (ucast (ApiKeyIndex txInfo)));
          elems = append_slice elems (FromUint32 g (ucast (MarketIndex txInfo)));
          elems = append_slice elems (FromUint32 g (ucast (Direction txInfo)));
          usdcAmountField = FromInt64 g (USDCAmount txInfo);
          elems = append_slice elems usdcAmountField
      in elems)"

text \<open>
  \<open>Hash\<close> returns the pair \<open>(msgHash, err)\<close>; \<open>err\<close> is always \<open>nil\<close>. The variadic
  parameter \<open>extra\<close> is the list of the extra elements of the call.
\<close>

definition Hash ::
  "('e, 'h) poseidon \<Rightarrow> constants \<Rightarrow> L2UpdateMarginTxInfo \<Rightarrow> uint32 \<Rightarrow> 'e list
     \<Rightarrow> byte list \<times> error option" where
  "Hash g K txInfo lighterChainId extra =
     (ToLittleEndianBytes g (HashToQuinticExtension g (Hash_elems g K txInfo lighterChainId)),
      None)"

subsection \<open>The declared order of the checks, as the specification words it\<close>

text \<open>
  The specification describes \<open>Validate\<close> as a list of checks evaluated in a fixed
  declared order, the error of the first failing one being returned. \<open>spec_checks\<close> is
  that list (a check is the condition under which it fails, with its error) and
  \<open>spec_first_failing\<close> the evaluation; they are compared with \<open>Validate\<close> below.
\<close>

definition spec_checks :: "constants \<Rightarrow> ((L2UpdateMarginTxInfo \<Rightarrow> bool) \<times> error) list" where
  "spec_checks K =
     [(\<lambda>t. AccountIndex t <=s MinAccountIndex K, ErrFromAccountIndexTooLow),
      (\<lambda>t. MaxAccountIndex K <s AccountIndex t, ErrFromAccountIndexTooHigh),
      (\<lambda>t. MaxApiKeyIndex K < ApiKeyIndex t, ErrApiKeyIndexTooHigh),
      (\<lambda>t. MarketIndex t < MinMarketIndex K, ErrMarketIndexTooLow),
      (\<lambda>t. MaxMarketIndex K < MarketIndex t, ErrMarketIndexTooHigh),
      (\<lambda>t. USDCAmount t = 0, ErrUSDCAmountIsZero),
      (\<lambda>t. Nonce t <s MinNonce K, ErrNonceTooLow),
      (\<lambda>t. ExpiredAt t <s 0 \<or> MaxTimestamp K <s ExpiredAt t, ErrExpiredAtInvalid)]"

fun spec_first_failing :: "(('a \<Rightarrow> bool) \<times> 'e) list \<Rightarrow> 'a \<Rightarrow> 'e option" where
  "spec_first_failing [] t = None"
| "spec_first_failing ((fails, e) # cs) t =
     (if fails t then Some e else spec_first_failing cs t)"

text \<open>The fields other than \<open>AccountIndex\<close> pass their checks.\<close>

definition other_fields_within_bounds :: "constants \<Rightarrow> L2UpdateMarginTxInfo \<Rightarrow> bool" where
  "other_fields_within_bounds K t \<longleftrightarrow>
     ApiKeyIndex t \<le> MaxApiKeyIndex K \<and>
     MinMarketIndex K \<le> MarketIndex t \<and> MarketIndex t \<le> MaxMarketIndex K \<and>
     USDCAmount t \<noteq> 0 \<and>
     MinNonce K <=s Nonce t \<and>
     0 <=s ExpiredAt t \<and> ExpiredAt t <=s MaxTimestamp K"

text \<open>The fields checked before \<open>USDCAmount\<close> pass their checks.\<close>

definition earlier_fields_within_bounds :: "constants \<Rightarrow> L2UpdateMarginTxInfo \<Rightarrow> bool" where
  "earlier_fields_within_bounds K t \<longleftrightarrow>
     MinAccountIndex K <s AccountIndex t \<and> AccountIndex t <=s MaxAccountIndex K \<and>
     ApiKeyIndex t \<le> MaxApiKeyIndex K \<and>
     MinMarketIndex K \<le> MarketIndex t \<and> MarketIndex t \<le> MaxMarketIndex K"

subsection \<open>Concrete inputs\<close>

text \<open>
  One instance of the constants and one transaction, on which the theorems below are
  evaluated.
\<close>

definition sample_constants :: constants where
  "sample_constants = \<lparr>MinAccountIndex = 0, MaxAccountIndex = 281474976710654,
     MaxApiKeyIndex = 254, MinMarketIndex = 0, MaxMarketIndex = 254, MinNonce = 0,
     MaxTimestamp = 281474976710655, TxTypeL2UpdateMargin = 29\<rparr>"

definition sample_tx :: L2UpdateMarginTxInfo where
  "sample_tx = \<lparr>AccountIndex = 7, ApiKeyIndex = 3, MarketIndex = 1, USDCAmount = - 1000000,
     Direction = 1, ExpiredAt = 1700000000000, Nonce = 12, Sig = [], SignedHash = []\<rparr>"

section \<open>Properties of the update-margin transaction\<close>

subsection \<open>Signed successor below a bound\<close>

lemma sint_succ:
  fixes a b :: int64
  assumes "a <s b"
  shows "sint (a + 1) = sint a + 1"
proof -
  have lt: "sint a < sint b" using assms by (simp add: word_sless_alt)
  have ub: "sint b < 2 ^ 63" using sint_lt [of b] by simp
  have lb: "- (2 ^ 63) \<le> sint a" using sint_ge [of a] by simp
  have "sint (a + 1) = signed_take_bit 63 (sint a + 1)"
    by (simp add: sint_word_ariths)
  also have "\<dots> = sint a + 1"
    using lt ub lb by (intro signed_take_bit_int_eq_self) auto
  finally show ?thesis .
qed

lemma succ_in_range:
  fixes a b :: int64
  assumes "a <s b"
  shows "\<not> (a + 1 <=s a)" and "\<not> (b <s a + 1)"
  using assms sint_succ [OF assms] by (auto simp add: word_sle_eq word_sless_alt)

subsection \<open>First failing check\<close>

lemma spec_first_failing_split:
  "list_all (\<lambda>c. \<not> fst c t) pre \<Longrightarrow> fails t \<Longrightarrow>
     spec_first_failing (pre @ (fails, e) # post) t = Some e"
  by (induction pre) auto

lemma spec_first_failing_None:
  "(spec_first_failing cs t = None) = list_all (\<lambda>c. \<not> fst c t) cs"
  by (induction cs) (auto split: if_splits)

lemma Validate_spec: "Validate K t = spec_first_failing (spec_checks K) t"
  by (simp add: Validate_def spec_checks_def)

subsection \<open>The hashed field sequence\<close>

text \<open>
  C1. For every update-margin transaction and every chain id, the slice that \<open>Hash\<close>
  hands to the sponge is the chain id and the transaction-type tag, followed by
  \<open>Nonce\<close>, \<open>ExpiredAt\<close>, \<open>AccountIndex\<close>, \<open>ApiKeyIndex\<close>, \<open>MarketIndex\<close>, \<open>Direction\<close>,
  \<open>USDCAmount\<close> in this order, and nothing else; the digest returned is the
  serialised sponge output of exactly this list.
\<close>

theorem Hash_field_sequence:
  "Hash_elems g K txInfo lighterChainId =
     [FromUint32 g lighterChainId, FromUint32 g (ucast (TxTypeL2UpdateMargin K)),
      FromInt64 g (Nonce txInfo), FromInt64 g (ExpiredAt txInfo),
      FromInt64 g (AccountIndex txInfo), FromUint32 g (ucast (ApiKeyIndex txInfo)),
      FromUint32 g (ucast (MarketIndex txInfo)), FromUint32 g (ucast (Direction txInfo)),
      FromInt64 g (USDCAmount txInfo)]
   \<and> fst (Hash g K txInfo lighterChainId extra) =
       ToLittleEndianBytes g (HashToQuinticExtension g
         [FromUint32 g lighterChainId, FromUint32 g (ucast (TxTypeL2UpdateMargin K)),
          FromInt64 g (Nonce txInfo), FromInt64 g (ExpiredAt txInfo),
          FromInt64 g (AccountIndex txInfo), FromUint32 g (ucast (ApiKeyIndex txInfo)),
          FromUint32 g (ucast (MarketIndex txInfo)), FromUint32 g (ucast (Direction txInfo)),
          FromInt64 g (USDCAmount txInfo)])"
  by (simp add: Hash_def Hash_elems_def append_slice_def)

subsection \<open>Validation\<close>

text \<open>
  C2. \<open>Validate\<close> returns \<open>nil\<close> exactly when every check of the declared list passes,
  and otherwise the error of the first failing check of that list: whenever the list
  splits into checks that pass, a check that fails and any remainder, the error of
  that failing check is returned, whatever the later checks say.
\<close>

theorem Validate_first_failing_check:
  "(Validate K t = None) = list_all (\<lambda>c. \<not> fst c t) (spec_checks K)
   \<and> Validate K t = spec_first_failing (spec_checks K) t
   \<and> (\<forall>pre fails e post.
        spec_checks K = pre @ (fails, e) # post \<and> list_all (\<lambda>c. \<not> fst c t) pre \<and> fails t
          \<longrightarrow> Validate K t = Some e)"
  by (auto simp add: Validate_spec spec_first_failing_None spec_first_failing_split)

theorem Validate_first_failing_check_witness:
  "Validate sample_constants (sample_tx\<lparr>AccountIndex := 0, MarketIndex := 255, USDCAmount := 0\<rparr>)
     = Some ErrFromAccountIndexTooLow
   \<and> Validate sample_constants (sample_tx\<lparr>MarketIndex := 255, USDCAmount := 0, Nonce := - 1\<rparr>)
     = Some ErrMarketIndexTooHigh
   \<and> Validate sample_constants sample_tx = None"
proof -
  let ?K = sample_constants
  let ?t = "sample_tx\<lparr>MarketIndex := 255, USDCAmount := 0, Nonce := - 1\<rparr>"
  have split: "spec_checks ?K = take 4 (spec_checks ?K) @
     ((\<lambda>t. MaxMarketIndex ?K < MarketIndex t), ErrMarketIndexTooHigh) # drop 5 (spec_checks ?K)"
    by (simp add: spec_checks_def)
  have pre: "list_all (\<lambda>c. \<not> fst c ?t) (take 4 (spec_checks ?K))"
    by (simp add: spec_checks_def sample_constants_def sample_tx_def word_sle_eq word_sless_alt)
  have fails: "MaxMarketIndex ?K < MarketIndex ?t"
    by (simp add: sample_constants_def sample_tx_def)
  from Validate_first_failing_check [of ?K ?t] split pre fails
  have "Validate ?K ?t = Some ErrMarketIndexTooHigh" by blast
  moreover have "Validate ?K (sample_tx\<lparr>AccountIndex := 0, MarketIndex := 255, USDCAmount := 0\<rparr>)
     = Some ErrFromAccountIndexTooLow"
    by (simp add: Validate_def sample_constants_def sample_tx_def word_sle_eq word_sless_alt)
  moreover have "Validate ?K sample_tx = None"
    using Validate_first_failing_check [of ?K sample_tx]
    by (simp add: spec_checks_def sample_constants_def sample_tx_def word_sle_eq word_sless_alt)
  ultimately show ?thesis by simp
qed

text \<open>
  C3. \<open>Validate\<close> rejects an \<open>AccountIndex\<close> equal to \<open>MinAccountIndex\<close> with the
  account-index-too-low error, and accepts \<open>MinAccountIndex + 1\<close> when the other fields
  are within their bounds. The constants are a parameter here, so the second half is
  stated for constants with \<open>MinAccountIndex < MaxAccountIndex\<close>.
\<close>

theorem Validate_AccountIndex_boundary:
  "Validate K (t\<lparr>AccountIndex := MinAccountIndex K\<rparr>) = Some ErrFromAccountIndexTooLow
   \<and> (MinAccountIndex K <s MaxAccountIndex K \<and> other_fields_within_bounds K t
        \<longrightarrow> Validate K (t\<lparr>AccountIndex := MinAccountIndex K + 1\<rparr>) = None)"
  using succ_in_range [of "MinAccountIndex K" "MaxAccountIndex K"]
  by (auto simp add: Validate_def other_fields_within_bounds_def
      linorder_not_less [symmetric] signed.not_less [symmetric])

theorem Validate_AccountIndex_boundary_witness:
  "MinAccountIndex sample_constants <s MaxAccountIndex sample_constants
   \<and> other_fields_within_bounds sample_constants sample_tx
   \<and> Validate sample_constants (sample_tx\<lparr>AccountIndex := MinAccountIndex sample_constants\<rparr>)
       = Some ErrFromAccountIndexTooLow
   \<and> Validate sample_constants (sample_tx\<lparr>AccountIndex := MinAccountIndex sample_constants + 1\<rparr>)
       = None"
proof -
  have a: "MinAccountIndex sample_constants <s MaxAccountIndex sample_constants"
    by (simp add: sample_constants_def word_sless_alt)
  have b: "other_fields_within_bounds sample_constants sample_tx"
    by (simp add: other_fields_within_bounds_def sample_constants_def sample_tx_def
        word_sle_eq)
  show ?thesis
    using a b Validate_AccountIndex_boundary [of sample_constants sample_tx] by blast
qed

text \<open>
  C4. When the fields checked earlier are within bounds, \<open>Validate\<close> returns the
  zero-amount error exactly when \<open>USDCAmount\<close> is 0. A zero amount is never accepted,
  and a non-zero amount, of either sign, never draws the zero-amount error.
\<close>

theorem Validate_USDCAmount_zero:
  "(earlier_fields_within_bounds K t \<longrightarrow>
      (Validate K t = Some ErrUSDCAmountIsZero) = (USDCAmount t = 0))
   \<and> (USDCAmount t = 0 \<longrightarrow> Validate K t \<noteq> None)
   \<and> (USDCAmount t \<noteq> 0 \<longrightarrow> Validate K t \<noteq> Some ErrUSDCAmountIsZero)"
  by (auto simp add: Validate_def earlier_fields_within_bounds_def)

theorem Validate_USDCAmount_zero_witness:
  "earlier_fields_within_bounds sample_constants (sample_tx\<lparr>USDCAmount := 0\<rparr>)
   \<and> Validate sample_constants (sample_tx\<lparr>USDCAmount := 0\<rparr>) = Some ErrUSDCAmountIsZero
   \<and> USDCAmount sample_tx \<noteq> 0
   \<and> Validate sample_constants sample_tx \<noteq> Some ErrUSDCAmountIsZero"
proof -
  have a: "earlier_fields_within_bounds sample_constants (sample_tx\<lparr>USDCAmount := 0\<rparr>)"
    by (simp add: earlier_fields_within_bounds_def sample_constants_def sample_tx_def
        word_sle_eq word_sless_alt)
  have b: "USDCAmount sample_tx \<noteq> 0"
    by (simp add: sample_tx_def)
  show ?thesis
    using a b Validate_USDCAmount_zero [of sample_constants "sample_tx\<lparr>USDCAmount := 0\<rparr>"]
      Validate_USDCAmount_zero [of sample_constants sample_tx]
    by simp
qed

text \<open>
  C8. The extra field elements passed to the variadic parameter of \<open>Hash\<close> have no
  influence on what it returns.
\<close>

theorem Hash_ignores_extra:
  "Hash g K txInfo lighterChainId extra = Hash g K txInfo lighterChainId []"
  by (simp add: Hash_def)

section \<open>Properties of the binding\<close>

lemma validateArg_present:
  "index < length args \<Longrightarrow> args ! index \<noteq> JsNull \<Longrightarrow> args ! index \<noteq> JsUndefined \<Longrightarrow>
     validateArg args index argName = None"
  by (simp add: validateArg_def IsNull_def IsUndefined_def)

lemma validateArg_message:
  "validateArg args index argName = Some e \<Longrightarrow> e \<noteq> []"
  by (auto simp add: validateArg_def split: if_splits)

lemma copy_slice_full: "length src = length dst \<Longrightarrow> copy_slice dst src = src"
  by (simp add: copy_slice_def)

lemma transfer_memo_empty: "transfer_memo R [] = Inr (replicate 32 0)"
  by (simp add: transfer_memo_def)

lemma transfer_memo_bad_length:
  "memoStr \<noteq> [] \<Longrightarrow> length memoStr \<noteq> 64 \<Longrightarrow>
     transfer_memo R memoStr =
       Inl ''memo expected to be 64 hex characters (32 bytes) or empty string''"
  by (simp add: transfer_memo_def)

lemma transfer_memo_decoded:
  "length memoStr = 64 \<Longrightarrow> hexutil_Decode R (''0x'' @ memoStr) = Inr memoBytes \<Longrightarrow>
     length memoBytes = 32 \<Longrightarrow> transfer_memo R memoStr = Inr memoBytes"
  by (auto simp add: transfer_memo_def Let_def copy_slice_full)

lemma signTransfer_request_reaches_memo:
  "txClient st = Some client \<Longrightarrow>
   signTransfer_request R st [JsNumber a, JsNumber b, JsNumber f, JsString memoStr, JsNumber n] =
     (case transfer_memo R memoStr of
        Inl e \<Rightarrow> Return (string_error e)
      | Inr memo \<Rightarrow>
          Next (client,
            \<lparr>ToAccountIndex = a, TransferTxReq.USDCAmount = b, Fee = f, Memo = memo\<rparr>,
            if n \<noteq> - 1 then new_TransactOpts\<lparr>TransactOpts.Nonce := Some n\<rparr>
            else new_TransactOpts))"
  by (simp add: signTransfer_request_def validateArg_present js_Int_def js_String_def
      split: sum.splits)

lemma signTransfer_request_Next_memo:
  "signTransfer_request R st args = Next x \<Longrightarrow>
     transfer_memo R (js_String (describe R) (args ! 3)) = Inr (Memo (fst (snd x)))"
  by (auto simp add: signTransfer_request_def Let_def
      split: if_splits option.splits sum.splits)

text \<open>
  C5. In a call of \<open>signTransfer\<close> that reaches the memo handling (five arguments,
  the numeric ones numbers, a client created): with the empty string as memo the
  request is constructed with a \<open>Memo\<close> of 32 zero bytes; with a non-empty memo whose
  length is not 64 the call returns the memo error; with a memo of length 64 that the
  decoder turns into 32 bytes, the request is constructed with exactly these bytes as
  \<open>Memo\<close>. Whatever the other arguments and the state are, a non-empty memo whose
  length is not 64 never lets the call construct a request.
\<close>

theorem signTransfer_memo:
  "(txClient st = Some client \<longrightarrow>
      signTransfer_request R st [JsNumber a, JsNumber b, JsNumber f, JsString [], JsNumber n] =
        Next (client,
          \<lparr>ToAccountIndex = a, TransferTxReq.USDCAmount = b, Fee = f, Memo = replicate 32 0\<rparr>,
          if n \<noteq> - 1 then new_TransactOpts\<lparr>TransactOpts.Nonce := Some n\<rparr>
          else new_TransactOpts))
   \<and> (txClient st = Some client \<and> memoStr \<noteq> [] \<and> length memoStr \<noteq> 64 \<longrightarrow>
        signTransfer R st [JsNumber a, JsNumber b, JsNumber f, JsString memoStr, JsNumber n] =
          Some (string_error
            ''memo expected to be 64 hex characters (32 bytes) or empty string''))
   \<and> (js_String (describe R) (args ! 3) \<noteq> [] \<and>
        length (js_String (describe R) (args ! 3)) \<noteq> 64 \<longrightarrow>
        (\<forall>x. signTransfer_request R st args \<noteq> Next x))
   \<and> (txClient st = Some client \<and> length memoStr = 64 \<and>
        hexutil_Decode R (''0x'' @ memoStr) = Inr memoBytes \<and> length memoBytes = 32 \<longrightarrow>
        signTransfer_request R st
            [JsNumber a, JsNumber b, JsNumber f, JsString memoStr, JsNumber n] =
          Next (client,
            \<lparr>ToAccountIndex = a, TransferTxReq.USDCAmount = b, Fee = f, Memo = memoBytes\<rparr>,
            if n \<noteq> - 1 then new_TransactOpts\<lparr>TransactOpts.Nonce := Some n\<rparr>
            else new_TransactOpts))"
proof (intro conjI impI allI)
  assume "txClient st = Some client"
  then show "signTransfer_request R st
      [JsNumber a, JsNumber b, JsNumber f, JsString [], JsNumber n] =
    Next (client, \<lparr>ToAccountIndex = a, TransferTxReq.USDCAmount = b, Fee = f, Memo = replicate 32 0\<rparr>,
      if n \<noteq> - 1 then new_TransactOpts\<lparr>TransactOpts.Nonce := Some n\<rparr> else new_TransactOpts)"
    by (simp add: signTransfer_request_reaches_memo transfer_memo_empty)
next
  assume "txClient st = Some client \<and> memoStr \<noteq> [] \<and> length memoStr \<noteq> 64"
  then show "signTransfer R st
      [JsNumber a, JsNumber b, JsNumber f, JsString memoStr, JsNumber n] =
    Some (string_error ''memo expected to be 64 hex characters (32 bytes) or empty string'')"
    by (simp add: signTransfer_def signTransfer_request_reaches_memo transfer_memo_bad_length)
next
  fix x
  assume bad: "js_String (describe R) (args ! 3) \<noteq> [] \<and>
    length (js_String (describe R) (args ! 3)) \<noteq> 64"
  show "signTransfer_request R st args \<noteq> Next x"
  proof
    assume "signTransfer_request R st args = Next x"
    then have "transfer_memo R (js_String (describe R) (args ! 3)) = Inr (Memo (fst (snd x)))"
      by (rule signTransfer_request_Next_memo)
    with bad show False
      by (simp add: transfer_memo_bad_length)
  qed
next
  assume "txClient st = Some client \<and> length memoStr = 64 \<and>
    hexutil_Decode R (''0x'' @ memoStr) = Inr memoBytes \<and> length memoBytes = 32"
  then show "signTransfer_request R st
      [JsNumber a, JsNumber b, JsNumber f, JsString memoStr, JsNumber n] =
    Next (client, \<lparr>ToAccountIndex = a, TransferTxReq.USDCAmount = b, Fee = f, Memo = memoBytes\<rparr>,
      if n \<noteq> - 1 then new_TransactOpts\<lparr>TransactOpts.Nonce := Some n\<rparr> else new_TransactOpts)"
    by (simp add: signTransfer_request_reaches_memo transfer_memo_decoded)
qed


theorem signTransfer_memo_witness:
  "signTransfer_request (sample_runtime []) sample_globals
       [JsNumber 8, JsNumber 1000000, JsNumber 1000, JsString [], JsNumber 201] =
     Next (3, \<lparr>ToAccountIndex = 8, TransferTxReq.USDCAmount = 1000000, Fee = 1000, Memo = replicate 32 0\<rparr>,
           \<lparr>TransactOpts.Nonce = Some 201, TransactOpts.ExpiredAt = 0\<rparr>)
   \<and> signTransfer (sample_runtime []) sample_globals
       [JsNumber 8, JsNumber 1000000, JsNumber 1000, JsString ''abcd'', JsNumber 201] =
     Some \<lparr>Result = [],
            Error = ''memo expected to be 64 hex characters (32 bytes) or empty string''\<rparr>
   \<and> signTransfer_request (sample_runtime []) sample_globals
       [JsNumber 8, JsNumber 1000000, JsNumber 1000, JsString sample_memo, JsNumber (- 1)] =
     Next (3, \<lparr>ToAccountIndex = 8, TransferTxReq.USDCAmount = 1000000, Fee = 1000, Memo = sample_memo_bytes\<rparr>,
           \<lparr>TransactOpts.Nonce = None, TransactOpts.ExpiredAt = 0\<rparr>)"
proof -
  have client: "txClient sample_globals = Some 3"
    by (simp add: sample_globals_def)
  have decode: "hexutil_Decode (sample_runtime []) (''0x'' @ sample_memo) = Inr sample_memo_bytes"
    by (simp add: sample_runtime_def reference_Decode_def sample_memo_def
        sample_memo_bytes_def fromHexChar_def)
  have len: "length sample_memo = 64" "length sample_memo_bytes = 32"
    by (simp_all add: sample_memo_def sample_memo_bytes_def)
  have short: "''abcd'' \<noteq> []" "length ''abcd'' \<noteq> 64"
    by simp_all
  note inst = signTransfer_memo [where R = "sample_runtime []" and st = sample_globals
      and client = 3 and a = 8 and b = 1000000 and f = 1000]
  have one: "signTransfer_request (sample_runtime []) sample_globals
       [JsNumber 8, JsNumber 1000000, JsNumber 1000, JsString [], JsNumber 201] =
     Next (3, \<lparr>ToAccountIndex = 8, TransferTxReq.USDCAmount = 1000000, Fee = 1000, Memo = replicate 32 0\<rparr>,
           \<lparr>TransactOpts.Nonce = Some 201, TransactOpts.ExpiredAt = 0\<rparr>)"
    using inst [where n = 201] client by (simp add: new_TransactOpts_def)
  have two: "signTransfer (sample_runtime []) sample_globals
       [JsNumber 8, JsNumber 1000000, JsNumber 1000, JsString ''abcd'', JsNumber 201] =
     Some \<lparr>Result = [],
            Error = ''memo expected to be 64 hex characters (32 bytes) or empty string''\<rparr>"
    using inst [where n = 201 and memoStr = "''abcd''"] client short
    by (simp add: string_error_def)
  have three: "signTransfer_request (sample_runtime []) sample_globals
       [JsNumber 8, JsNumber 1000000, JsNumber 1000, JsString sample_memo, JsNumber (- 1)] =
     Next (3, \<lparr>ToAccountIndex = 8, TransferTxReq.USDCAmount = 1000000, Fee = 1000, Memo = sample_memo_bytes\<rparr>,
           \<lparr>TransactOpts.Nonce = None, TransactOpts.ExpiredAt = 0\<rparr>)"
    using inst [where n = "- 1" and memoStr = sample_memo and memoBytes = sample_memo_bytes]
      client decode len
    by (simp add: new_TransactOpts_def)
  from one two three show ?thesis by simp
qed

subsection \<open>Grouped orders\<close>

lemma length_build_orders:
  "length (build_orders clock i reqs orders) = length orders + length reqs"
  by (induction reqs arbitrary: i orders)
    (simp_all add: build_orders.simps Let_def append_slice_def)

lemma build_orders_ClientOrderIndex:
  "\<forall>order \<in> set orders. ClientOrderIndex order = 0 \<Longrightarrow>
     \<forall>order \<in> set (build_orders clock i reqs orders). ClientOrderIndex order = 0"
proof (induction reqs arbitrary: i orders)
  case Nil
  then show ?case by (simp add: build_orders.simps)
next
  case (Cons orderReq rest)
  show ?case
    unfolding build_orders.simps Let_def
    by (rule Cons.IH) (use Cons.prems in \<open>simp add: append_slice_def\<close>)
qed

lemma signCreateGroupedOrders_request_parsed:
  "txClient st = Some client \<Longrightarrow> Unmarshal_orders R ordersJSON = Inr orderRequests \<Longrightarrow>
   signCreateGroupedOrders_request R st
       [JsNumber gt, JsString ordersJSON, JsNumber expiredAt, JsNumber nonce] =
     (if length orderRequests < 2 \<or> length orderRequests > 3 then
        Return (string_error ''grouped orders must contain 2 or 3 orders'')
      else
        Next (client,
          \<lparr>GroupingType = ucast gt,
             Orders = build_orders (now_plus_28_days R) 0 orderRequests []\<rparr>,
          \<lparr>TransactOpts.Nonce = (if nonce \<noteq> - 1 then Some nonce else None),
             TransactOpts.ExpiredAt = (if expiredAt \<noteq> - 1 then expiredAt else 0)\<rparr>))"
  by (simp add: signCreateGroupedOrders_request_def validateArg_present js_Int_def
      js_String_def new_TransactOpts_def)

lemma signCreateGroupedOrders_request_Next_orders:
  "signCreateGroupedOrders_request R st args = Next x \<Longrightarrow>
     \<exists>orderRequests. Orders (fst (snd x)) = build_orders (now_plus_28_days R) 0 orderRequests []"
  by (auto simp add: signCreateGroupedOrders_request_def Let_def
      split: if_splits option.splits sum.splits)

text \<open>
  C6. In a call of \<open>signCreateGroupedOrders\<close> whose order list has been parsed: with
  fewer than 2 or more than 3 legs it returns the error response before a request is
  constructed; with 2 or 3 legs it constructs the request, of as many legs, hands it
  to \<open>GetCreateGroupedOrdersTransaction\<close> and returns what comes of that.
\<close>

theorem signCreateGroupedOrders_leg_count:
  "(txClient st = Some client \<and> Unmarshal_orders R ordersJSON = Inr orderRequests \<and>
      (length orderRequests < 2 \<or> length orderRequests > 3) \<longrightarrow>
      signCreateGroupedOrders_request R st
          [JsNumber gt, JsString ordersJSON, JsNumber expiredAt, JsNumber nonce] =
        Return (string_error ''grouped orders must contain 2 or 3 orders'')
      \<and> signCreateGroupedOrders R st
          [JsNumber gt, JsString ordersJSON, JsNumber expiredAt, JsNumber nonce] =
        Some (string_error ''grouped orders must contain 2 or 3 orders''))
   \<and> (txClient st = Some client \<and> Unmarshal_orders R ordersJSON = Inr orderRequests \<and>
        (length orderRequests = 2 \<or> length orderRequests = 3) \<longrightarrow>
        (\<exists>txInfo ops.
           signCreateGroupedOrders_request R st
               [JsNumber gt, JsString ordersJSON, JsNumber expiredAt, JsNumber nonce] =
             Next (client, txInfo, ops)
           \<and> GroupingType txInfo = ucast gt
           \<and> length (Orders txInfo) = length orderRequests
           \<and> signCreateGroupedOrders R st
               [JsNumber gt, JsString ordersJSON, JsNumber expiredAt, JsNumber nonce] =
             (case GetCreateGroupedOrdersTransaction R client txInfo ops of
                Inl err \<Rightarrow> Some (string_error (''failed to create transaction: '' @ err))
              | Inr tx \<Rightarrow>
                  (case render_grouped R tx of
                     Inl e \<Rightarrow> Some (string_error e)
                   | Inr txInfoBytes \<Rightarrow> Some \<lparr>Result = txInfoBytes, Error = []\<rparr>))))"
  by (auto simp add: signCreateGroupedOrders_def signCreateGroupedOrders_request_parsed
      length_build_orders)

text \<open>
  C9. Every leg that the loop of \<open>signCreateGroupedOrders\<close> builds has
  \<open>ClientOrderIndex\<close> 0, for every input order list; so has every leg of a request
  that the function constructs.
\<close>

theorem grouped_legs_ClientOrderIndex_zero:
  "(\<forall>order \<in> set (build_orders clock 0 orderRequests []). ClientOrderIndex order = 0)
   \<and> (signCreateGroupedOrders_request R st args = Next (client, txInfo, ops) \<longrightarrow>
        (\<forall>order \<in> set (Orders txInfo). ClientOrderIndex order = 0))"
proof (intro conjI impI)
  show all: "\<forall>order \<in> set (build_orders clock 0 orderRequests []). ClientOrderIndex order = 0"
    for clock orderRequests
    by (rule build_orders_ClientOrderIndex) simp
  assume "signCreateGroupedOrders_request R st args = Next (client, txInfo, ops)"
  from signCreateGroupedOrders_request_Next_orders [OF this]
  obtain orderRequests where
    "Orders txInfo = build_orders (now_plus_28_days R) 0 orderRequests []"
    by auto
  with all show "\<forall>order \<in> set (Orders txInfo). ClientOrderIndex order = 0"
    by simp
qed


theorem signCreateGroupedOrders_leg_count_witness:
  "signCreateGroupedOrders (sample_runtime [sample_leg]) sample_globals
       [JsNumber 1, JsString ''[]'', JsNumber (- 1), JsNumber 5] =
     Some \<lparr>Result = [], Error = ''grouped orders must contain 2 or 3 orders''\<rparr>
   \<and> signCreateGroupedOrders
       (sample_runtime [sample_leg, sample_leg, sample_leg, sample_leg]) sample_globals
       [JsNumber 1, JsString ''[]'', JsNumber (- 1), JsNumber 5] =
     Some \<lparr>Result = [], Error = ''grouped orders must contain 2 or 3 orders''\<rparr>
   \<and> signCreateGroupedOrders (sample_runtime [sample_leg, sample_leg]) sample_globals
       [JsNumber 1, JsString ''[]'', JsNumber (- 1), JsNumber 5] =
     Some \<lparr>Result = ''grouped'', Error = []\<rparr>
   \<and> signCreateGroupedOrders (sample_runtime [sample_leg, sample_leg, sample_leg]) sample_globals
       [JsNumber 1, JsString ''[]'', JsNumber (- 1), JsNumber 5] =
     Some \<lparr>Result = ''grouped'', Error = []\<rparr>"
proof -
  have client: "txClient sample_globals = Some 3"
    by (simp add: sample_globals_def)
  have parsed: "Unmarshal_orders (sample_runtime legs) ''[]'' = Inr legs" for legs
    by (simp add: sample_runtime_def)
  have signed: "GetCreateGroupedOrdersTransaction (sample_runtime legs) c txInfo ops = Inr ''grouped''"
    "render_grouped (sample_runtime legs) tx = Inr tx" for legs c txInfo ops tx
    by (simp_all add: sample_runtime_def)
  note inst = signCreateGroupedOrders_leg_count [where st = sample_globals and client = 3
      and ordersJSON = "''[]''" and gt = 1 and expiredAt = "- 1" and nonce = 5]
  have one: "signCreateGroupedOrders (sample_runtime [sample_leg]) sample_globals
       [JsNumber 1, JsString ''[]'', JsNumber (- 1), JsNumber 5] =
     Some \<lparr>Result = [], Error = ''grouped orders must contain 2 or 3 orders''\<rparr>"
    using inst [where R = "sample_runtime [sample_leg]" and orderRequests = "[sample_leg]"]
      client parsed
    by (simp add: string_error_def)
  have four: "signCreateGroupedOrders
       (sample_runtime [sample_leg, sample_leg, sample_leg, sample_leg]) sample_globals
       [JsNumber 1, JsString ''[]'', JsNumber (- 1), JsNumber 5] =
     Some \<lparr>Result = [], Error = ''grouped orders must contain 2 or 3 orders''\<rparr>"
    using inst [where R = "sample_runtime [sample_leg, sample_leg, sample_leg, sample_leg]"
        and orderRequests = "[sample_leg, sample_leg, sample_leg, sample_leg]"]
      client parsed
    by (simp add: string_error_def)
  have two: "signCreateGroupedOrders (sample_runtime [sample_leg, sample_leg]) sample_globals
       [JsNumber 1, JsString ''[]'', JsNumber (- 1), JsNumber 5] =
     Some \<lparr>Result = ''grouped'', Error = []\<rparr>"
    using inst [where R = "sample_runtime [sample_leg, sample_leg]"
        and orderRequests = "[sample_leg, sample_leg]"]
      client parsed signed
    by auto
  have three: "signCreateGroupedOrders (sample_runtime [sample_leg, sample_leg, sample_leg])
       sample_globals [JsNumber 1, JsString ''[]'', JsNumber (- 1), JsNumber 5] =
     Some \<lparr>Result = ''grouped'', Error = []\<rparr>"
    using inst [where R = "sample_runtime [sample_leg, sample_leg, sample_leg]"
        and orderRequests = "[sample_leg, sample_leg, sample_leg]"]
      client parsed signed
    by auto
  from one four two three show ?thesis by simp
qed

theorem grouped_legs_ClientOrderIndex_zero_witness:
  "signCreateGroupedOrders_request (sample_runtime [sample_leg, sample_leg]) sample_globals
       [JsNumber 1, JsString ''[]'', JsNumber (- 1), JsNumber 5] =
     Next (3,
       \<lparr>GroupingType = 1,
          Orders = build_orders (\<lambda>i. 1702419200000) 0 [sample_leg, sample_leg] []\<rparr>,
       \<lparr>TransactOpts.Nonce = Some 5, TransactOpts.ExpiredAt = 0\<rparr>)
   \<and> length (build_orders (\<lambda>i. 1702419200000) 0 [sample_leg, sample_leg] []) = 2
   \<and> list_all (\<lambda>order. ClientOrderIndex order = 0)
         (build_orders (\<lambda>i. 1702419200000) 0 [sample_leg, sample_leg] [])"
proof -
  let ?R = "sample_runtime [sample_leg, sample_leg]"
  let ?orders = "build_orders (\<lambda>i. 1702419200000) 0 [sample_leg, sample_leg] []"
  have client: "txClient sample_globals = Some 3"
    by (simp add: sample_globals_def)
  have parsed: "Unmarshal_orders ?R ''[]'' = Inr [sample_leg, sample_leg]"
    by (simp add: sample_runtime_def)
  have clock: "now_plus_28_days ?R = (\<lambda>i. 1702419200000)"
    by (simp add: sample_runtime_def)
  have req: "signCreateGroupedOrders_request ?R sample_globals
       [JsNumber 1, JsString ''[]'', JsNumber (- 1), JsNumber 5] =
     Next (3, \<lparr>GroupingType = 1, Orders = ?orders\<rparr>, \<lparr>TransactOpts.Nonce = Some 5, TransactOpts.ExpiredAt = 0\<rparr>)"
    by (simp add: signCreateGroupedOrders_request_parsed [OF client parsed] clock)
  have len: "length ?orders = 2"
    by (simp add: length_build_orders)
  from grouped_legs_ClientOrderIndex_zero [of "\<lambda>i. 1702419200000" "[sample_leg, sample_leg]"
      ?R sample_globals _ 3 "\<lparr>GroupingType = 1, Orders = ?orders\<rparr>"] req
  have "\<forall>order \<in> set ?orders. ClientOrderIndex order = 0"
    by simp
  then have "list_all (\<lambda>order. ClientOrderIndex order = 0) ?orders"
    by (simp add: list_all_iff)
  with req len show ?thesis by simp
qed

subsection \<open>The registry\<close>

lemma createClient_wellformed:
  "createClient R st [JsString url, JsString privateKey, JsNumber chainId, JsNumber apiKeyIndex,
       JsNumber accountIndex] =
     (if accountIndex <=s 0 then (st, Some (error_response ''invalid account index''))
      else
        case NewTxClient R (NewHTTPClient url) privateKey accountIndex (ucast apiKeyIndex)
               (ucast chainId) of
          (client, Some e) \<Rightarrow>
            (st\<lparr>txClient := client\<rparr>,
             Some (error_response (''error occurred when creating TxClient. err: '' @ e)))
        | (client, None) \<Rightarrow>
            (\<lparr>txClient = client,
              backupTxClients =
                Some ((case backupTxClients st of None \<Rightarrow> Map.empty | Some m \<Rightarrow> m)
                        (ucast apiKeyIndex \<mapsto> client))\<rparr>,
             Some (error_response [])))"
  by (cases st)
    (simp add: createClient_def validateArg_present js_Int_def js_String_def Let_def
      split: prod.splits option.splits)

lemma createClient_success:
  assumes "successful (snd (createClient R st args))"
  shows "active_registered (fst (createClient R st args))"
proof -
  from assms obtain a2 a3 a4 where
    nums: "js_Int (args ! 2) = Some a2" "js_Int (args ! 3) = Some a3" "js_Int (args ! 4) = Some a4"
    and ok: "\<not> a4 <=s 0"
      "snd (NewTxClient R (NewHTTPClient (js_String (describe R) (args ! 0)))
           (js_String (describe R) (args ! 1)) a4 (ucast a3) (ucast a2)) = None"
    and valid: "length args = 5" "validateArg args 0 ''url'' = None"
      "validateArg args 1 ''privateKey'' = None" "validateArg args 2 ''chainId'' = None"
      "validateArg args 3 ''apiKeyIndex'' = None" "validateArg args 4 ''accountIndex'' = None"
    by (auto simp add: createClient_def successful_def error_response_def Let_def
        dest: validateArg_message split: if_splits option.splits prod.splits)
  then show ?thesis
    by (auto simp add: createClient_def active_registered_def map_index_def Let_def
        split: prod.splits option.splits)
qed

lemma switchAPIKey_success:
  assumes "successful (snd (switchAPIKey st args))"
  shows "active_registered (fst (switchAPIKey st args))"
  using assms
  by (auto simp add: switchAPIKey_def successful_def error_response_def active_registered_def
      Let_def dest: validateArg_message split: if_splits option.splits)

lemma perform_success:
  "successful (snd (perform R st c)) \<Longrightarrow> active_registered (fst (perform R st c))"
  by (cases c) (simp_all add: createClient_success switchAPIKey_success)

lemma run_successful_registered:
  "run_successful R st calls = Some st' \<Longrightarrow> calls \<noteq> [] \<Longrightarrow> active_registered st'"
proof (induction calls arbitrary: st)
  case Nil
  then show ?case by simp
next
  case (Cons c cs)
  obtain st1 r where step: "perform R st c = (st1, r)"
    by (cases "perform R st c")
  with Cons.prems have ok: "successful r" and rest: "run_successful R st1 cs = Some st'"
    by (auto split: if_splits)
  show ?case
  proof (cases cs)
    case Nil
    with rest have "st' = st1" by simp
    with perform_success [of R st c] step ok show ?thesis by simp
  next
    case (Cons d ds)
    with Cons.IH [OF rest] show ?thesis by simp
  qed
qed

text \<open>
  C10. After a successful \<open>createClient\<close> or \<open>switchAPIKey\<close>, and so after any
  non-empty sequence of successful calls from any state, the active client is stored
  in the registry. A successful \<open>createClient\<close> stores the pointer that \<open>NewTxClient\<close>
  returned under its api-key index and makes it the active client; \<open>switchAPIKey\<close>
  leaves the state as it is or installs a client that the registry holds.
\<close>

theorem active_client_registered:
  "(successful (snd (perform R st c)) \<longrightarrow> active_registered (fst (perform R st c)))
   \<and> (run_successful R st calls = Some st' \<and> calls \<noteq> [] \<longrightarrow> active_registered st')
   \<and> (successful (snd (createClient R st
          [JsString url, JsString privateKey, JsNumber chainId, JsNumber apiKeyIndex,
           JsNumber accountIndex])) \<longrightarrow>
        fst (createClient R st
          [JsString url, JsString privateKey, JsNumber chainId, JsNumber apiKeyIndex,
           JsNumber accountIndex]) =
        \<lparr>txClient = fst (NewTxClient R (NewHTTPClient url) privateKey accountIndex
                          (ucast apiKeyIndex) (ucast chainId)),
          backupTxClients =
            Some ((case backupTxClients st of None \<Rightarrow> Map.empty | Some m \<Rightarrow> m)
                    (ucast apiKeyIndex \<mapsto>
                       fst (NewTxClient R (NewHTTPClient url) privateKey accountIndex
                              (ucast apiKeyIndex) (ucast chainId))))\<rparr>)
   \<and> (fst (switchAPIKey st args) = st
        \<or> (\<exists>k client. map_index (backupTxClients st) k = Some client
              \<and> fst (switchAPIKey st args) = st\<lparr>txClient := client\<rparr>))"
proof (intro conjI impI)
  assume "successful (snd (perform R st c))"
  then show "active_registered (fst (perform R st c))"
    by (rule perform_success)
next
  assume "run_successful R st calls = Some st' \<and> calls \<noteq> []"
  then show "active_registered st'"
    using run_successful_registered by blast
next
  let ?args = "[JsString url, JsString privateKey, JsNumber chainId, JsNumber apiKeyIndex,
           JsNumber accountIndex]"
  let ?new = "NewTxClient R (NewHTTPClient url) privateKey accountIndex
                          (ucast apiKeyIndex) (ucast chainId)"
  assume "successful (snd (createClient R st ?args))"
  then show "fst (createClient R st ?args) =
      \<lparr>txClient = fst ?new,
        backupTxClients =
          Some ((case backupTxClients st of None \<Rightarrow> Map.empty | Some m \<Rightarrow> m)
                  (ucast apiKeyIndex \<mapsto> fst ?new))\<rparr>"
    by (auto simp add: createClient_wellformed successful_def error_response_def
        split: if_splits prod.splits option.splits)
next
  show "fst (switchAPIKey st args) = st
        \<or> (\<exists>k client. map_index (backupTxClients st) k = Some client
              \<and> fst (switchAPIKey st args) = st\<lparr>txClient := client\<rparr>)"
    by (auto simp add: switchAPIKey_def Let_def split: if_splits option.splits)
qed


theorem active_client_registered_witness:
  "run_successful (sample_runtime []) initial_globals sample_calls = Some sample_globals
   \<and> sample_calls \<noteq> []
   \<and> active_registered sample_globals"
proof -
  have run: "run_successful (sample_runtime []) initial_globals sample_calls = Some sample_globals"
    by (simp add: sample_calls_def sample_globals_def initial_globals_def sample_runtime_def
        createClient_wellformed switchAPIKey_def validateArg_present js_Int_def map_index_def
        successful_def word_sle_eq)
  have ne: "sample_calls \<noteq> []"
    by (simp add: sample_calls_def)
  from active_client_registered [of "sample_runtime []" initial_globals _ sample_calls
      sample_globals, THEN conjunct2, THEN conjunct1] run ne
  have "active_registered sample_globals" by simp
  with run ne show ?thesis by simp
qed

section \<open>The active client and the signing functions\<close>

subsection \<open>Every signing function calls the active client\<close>

lemma signChangePubKey_request_client:
  "signChangePubKey_request R st args = Next x \<Longrightarrow> txClient st = Some (fst x)"
  by (auto simp add: signChangePubKey_request_def Let_def
      split: if_splits option.splits sum.splits)

lemma signCreateOrder_request_client:
  "signCreateOrder_request M st args = Next x \<Longrightarrow> txClient st = Some (fst x)"
  by (auto simp add: signCreateOrder_request_def Let_def split: if_splits option.splits)

lemma signCancelOrder_request_client:
  "signCancelOrder_request st args = Next x \<Longrightarrow> txClient st = Some (fst x)"
  by (auto simp add: signCancelOrder_request_def Let_def split: if_splits option.splits)

lemma signWithdraw_request_client:
  "signWithdraw_request st args = Next x \<Longrightarrow> txClient st = Some (fst x)"
  by (auto simp add: signWithdraw_request_def Let_def split: if_splits option.splits)

lemma signCreateSubAccount_request_client:
  "signCreateSubAccount_request st args = Next x \<Longrightarrow> txClient st = Some (fst x)"
  by (auto simp add: signCreateSubAccount_request_def Let_def split: if_splits option.splits)

lemma signCancelAllOrders_request_client:
  "signCancelAllOrders_request st args = Next x \<Longrightarrow> txClient st = Some (fst x)"
  by (auto simp add: signCancelAllOrders_request_def Let_def split: if_splits option.splits)

lemma signModifyOrder_request_client:
  "signModifyOrder_request st args = Next x \<Longrightarrow> txClient st = Some (fst x)"
  by (auto simp add: signModifyOrder_request_def Let_def split: if_splits option.splits)

lemma signTransfer_request_client:
  "signTransfer_request R st args = Next x \<Longrightarrow> txClient st = Some (fst x)"
  by (auto simp add: signTransfer_request_def Let_def
      split: if_splits option.splits sum.splits)

lemma signCreatePublicPool_request_client:
  "signCreatePublicPool_request st args = Next x \<Longrightarrow> txClient st = Some (fst x)"
  by (auto simp add: signCreatePublicPool_request_def Let_def split: if_splits option.splits)

lemma signUpdatePublicPool_request_client:
  "signUpdatePublicPool_request st args = Next x \<Longrightarrow> txClient st = Some (fst x)"
  by (auto simp add: signUpdatePublicPool_request_def Let_def split: if_splits option.splits)

lemma signMintShares_request_client:
  "signMintShares_request st args = Next x \<Longrightarrow> txClient st = Some (fst x)"
  by (auto simp add: signMintShares_request_def Let_def split: if_splits option.splits)

lemma signBurnShares_request_client:
  "signBurnShares_request st args = Next x \<Longrightarrow> txClient st = Some (fst x)"
  by (auto simp add: signBurnShares_request_def Let_def split: if_splits option.splits)

lemma signUpdateLeverage_request_client:
  "signUpdateLeverage_request st args = Next x \<Longrightarrow> txClient st = Some (fst x)"
  by (auto simp add: signUpdateLeverage_request_def Let_def split: if_splits option.splits)

lemma signUpdateMargin_request_client:
  "signUpdateMargin_request st args = Next x \<Longrightarrow> txClient st = Some (fst x)"
  by (auto simp add: signUpdateMargin_request_def Let_def split: if_splits option.splits)

lemma signCreateGroupedOrders_request_client:
  "signCreateGroupedOrders_request R st args = Next x \<Longrightarrow> txClient st = Some (fst x)"
  by (auto simp add: signCreateGroupedOrders_request_def Let_def
      split: if_splits option.splits sum.splits)

lemma createAuthToken_request_client:
  "createAuthToken_request M st args = Next x \<Longrightarrow> txClient st = Some (fst x)"
  by (auto simp add: createAuthToken_request_def Let_def split: if_splits option.splits)

lemma with_request_Next:
  "with_request mk s = Next (c, req) \<Longrightarrow> \<exists>txInfo ops. s = Next (c, txInfo, ops)"
  by (auto simp add: with_request_def split: step.splits)

lemma with_request1_Next:
  "with_request1 mk s = Next (c, req) \<Longrightarrow> \<exists>a. s = Next (c, a)"
  by (auto simp add: with_request1_def split: step.splits)

lemma sign_request_client:
  "sign_request R M op st args = Next (c, req) \<Longrightarrow> txClient st = Some c"
  by (cases op)
    (auto dest!: with_request_Next with_request1_Next
      dest: signChangePubKey_request_client signCreateOrder_request_client
        signCancelOrder_request_client signWithdraw_request_client
        signCreateSubAccount_request_client signCancelAllOrders_request_client
        signModifyOrder_request_client signTransfer_request_client
        signCreatePublicPool_request_client signUpdatePublicPool_request_client
        signMintShares_request_client signBurnShares_request_client
        signUpdateLeverage_request_client signUpdateMargin_request_client
        signCreateGroupedOrders_request_client createAuthToken_request_client)

lemma sign_served:
  "sign R M op st args =
     (case sign_request R M op st args of
        Panic \<Rightarrow> None
      | Return r \<Rightarrow> Some r
      | Next (c, req) \<Rightarrow> Some (served_by R M c req))"
  by (cases op)
    (simp_all add: with_request_def with_request1_def
      signChangePubKey_def signCreateOrder_def signCancelOrder_def signWithdraw_def
      signCreateSubAccount_def signCancelAllOrders_def signModifyOrder_def signTransfer_def
      signCreatePublicPool_def signUpdatePublicPool_def signMintShares_def signBurnShares_def
      signUpdateLeverage_def signUpdateMargin_def signCreateGroupedOrders_def
      createAuthToken_def
      split: step.splits sum.splits)

lemma sign_served_by_active:
  assumes "txClient st = Some c"
  shows "sign R M op st args =
     (case sign_request R M op st args of
        Panic \<Rightarrow> None
      | Return r \<Rightarrow> Some r
      | Next (c', req) \<Rightarrow> Some (served_by R M c req))"
proof (cases "sign_request R M op st args")
  case Panic
  then show ?thesis by (simp add: sign_served)
next
  case (Return r)
  then show ?thesis by (simp add: sign_served)
next
  case (Next x)
  obtain c' req where x: "x = (c', req)" by (cases x)
  with Next sign_request_client [of R M op st args c' req] assms have "c' = c" by simp
  with Next x show ?thesis by (simp add: sign_served)
qed

subsection \<open>Calls that leave the active client as it is\<close>

lemma switchAPIKey_unsuccessful:
  "\<not> successful (snd (switchAPIKey st args)) \<Longrightarrow> fst (switchAPIKey st args) = st"
  by (auto simp add: switchAPIKey_def successful_def Let_def split: if_splits option.splits)

lemma createClient_returns_early:
  "\<not> reaches_NewTxClient args \<Longrightarrow> fst (createClient R st args) = st"
  by (auto simp add: createClient_def reaches_NewTxClient_def Let_def
      split: if_splits option.splits prod.splits)

lemma exec_before_next_change:
  "before_next_change st ev \<Longrightarrow> exec R M st ev = (st, outcome_in R M st ev)"
proof (cases ev)
  case (Sign op args)
  then show ?thesis by (simp add: outcome_in_def)
next
  case (Switch args)
  assume "before_next_change st ev"
  with Switch have "fst (switchAPIKey st args) = st"
    by (simp add: switchAPIKey_unsuccessful)
  with Switch show ?thesis
    by (cases "switchAPIKey st args") (simp add: outcome_in_def)
next
  case (Create args)
  assume "before_next_change st ev"
  with Create have "fst (createClient R st args) = st"
    by (simp add: createClient_returns_early)
  with Create show ?thesis
    by (cases "createClient R st args") (simp add: outcome_in_def)
qed

lemma run_events_before_next_change:
  "\<forall>ev \<in> set evs. before_next_change st ev \<Longrightarrow>
     run_events R M st evs = (st, map (outcome_in R M st) evs)"
  by (induction evs) (simp_all add: exec_before_next_change)


subsection \<open>Switching the active client\<close>

text \<open>
  C7, in the form that holds. For every index and every state of the registry: \<open>switchAPIKey\<close>
  returns the error \<open>no client initialized for api key\<close> when the registry holds no
  client for the index, and leaves the state as it is; when the registry holds a
  client for the index, it succeeds and the active client becomes that client; a call
  that is not successful never changes the state. Each of the sixteen signing
  functions, called while a client is active, returns before it has built a request
  or has the request served by the active client. So after a successful switch to a
  client, in every sequence of signing, \<open>switchAPIKey\<close> and \<open>createClient\<close> calls that
  holds no successful \<open>switchAPIKey\<close> and no \<open>createClient\<close> that gets as far as
  \<open>NewTxClient\<close>, the state stays as the switch left it and every signing call is
  served by that client.
\<close>

theorem switchAPIKey_active_client:
  "(map_index (backupTxClients st) (ucast n) = None \<longrightarrow>
      switchAPIKey st [JsNumber n] =
        (st, Some (error_response ''no client initialized for api key'')))
   \<and> (map_index (backupTxClients st) (ucast n) = Some client \<longrightarrow>
        switchAPIKey st [JsNumber n] = (st\<lparr>txClient := client\<rparr>, Some (error_response [])))
   \<and> (\<not> successful (snd (switchAPIKey st args)) \<longrightarrow> fst (switchAPIKey st args) = st)
   \<and> (txClient st = Some c \<longrightarrow>
        sign R M op st args' =
          (case sign_request R M op st args' of
             Panic \<Rightarrow> None
           | Return r \<Rightarrow> Some r
           | Next (c', req) \<Rightarrow> Some (served_by R M c req)))
   \<and> (map_index (backupTxClients st) (ucast n) = Some (Some c) \<and>
        (\<forall>ev \<in> set evs. before_next_change (st\<lparr>txClient := Some c\<rparr>) ev) \<longrightarrow>
        run_events R M (fst (switchAPIKey st [JsNumber n])) evs =
          (st\<lparr>txClient := Some c\<rparr>, map (outcome_in R M (st\<lparr>txClient := Some c\<rparr>)) evs)
        \<and> (\<forall>op a. Sign op a \<in> set evs \<longrightarrow>
              outcome_in R M (st\<lparr>txClient := Some c\<rparr>) (Sign op a) =
                Signed (case sign_request R M op (st\<lparr>txClient := Some c\<rparr>) a of
                          Panic \<Rightarrow> None
                        | Return r \<Rightarrow> Some r
                        | Next (c', req) \<Rightarrow> Some (served_by R M c req))))"
proof (intro conjI impI allI)
  assume "map_index (backupTxClients st) (ucast n) = None"
  then show "switchAPIKey st [JsNumber n] =
      (st, Some (error_response ''no client initialized for api key''))"
    by (simp add: switchAPIKey_def validateArg_present js_Int_def)
next
  assume "map_index (backupTxClients st) (ucast n) = Some client"
  then show "switchAPIKey st [JsNumber n] =
      (st\<lparr>txClient := client\<rparr>, Some (error_response []))"
    by (simp add: switchAPIKey_def validateArg_present js_Int_def)
next
  assume "\<not> successful (snd (switchAPIKey st args))"
  then show "fst (switchAPIKey st args) = st"
    by (rule switchAPIKey_unsuccessful)
next
  assume "txClient st = Some c"
  then show "sign R M op st args' =
      (case sign_request R M op st args' of
         Panic \<Rightarrow> None
       | Return r \<Rightarrow> Some r
       | Next (c', req) \<Rightarrow> Some (served_by R M c req))"
    by (rule sign_served_by_active)
next
  assume a: "map_index (backupTxClients st) (ucast n) = Some (Some c) \<and>
    (\<forall>ev \<in> set evs. before_next_change (st\<lparr>txClient := Some c\<rparr>) ev)"
  then have "switchAPIKey st [JsNumber n] =
      (st\<lparr>txClient := Some c\<rparr>, Some (error_response []))"
    by (simp add: switchAPIKey_def validateArg_present js_Int_def)
  with a show "run_events R M (fst (switchAPIKey st [JsNumber n])) evs =
      (st\<lparr>txClient := Some c\<rparr>, map (outcome_in R M (st\<lparr>txClient := Some c\<rparr>)) evs)"
    by (simp add: run_events_before_next_change)
next
  fix op a
  have "txClient (st\<lparr>txClient := Some c\<rparr>) = Some c" by simp
  then show "outcome_in R M (st\<lparr>txClient := Some c\<rparr>) (Sign op a) =
      Signed (case sign_request R M op (st\<lparr>txClient := Some c\<rparr>) a of
                Panic \<Rightarrow> None
              | Return r \<Rightarrow> Some r
              | Next (c', req) \<Rightarrow> Some (served_by R M c req))"
    by (simp add: outcome_in_def sign_served_by_active)
qed

theorem switchAPIKey_active_client_witness:
  "switchAPIKey sample_globals [JsNumber 9] =
     (sample_globals, Some \<lparr>ErrorResponse.Error = ''no client initialized for api key''\<rparr>)
   \<and> switchAPIKey sample_globals [JsNumber 5] =
     (sample_globals\<lparr>txClient := Some 5\<rparr>, Some \<lparr>ErrorResponse.Error = []\<rparr>)
   \<and> list_all (before_next_change (sample_globals\<lparr>txClient := Some 5\<rparr>))
       [Sign SignTransfer sample_transfer_args, Switch [JsNumber 9], Create [],
        Sign SignCreateSubAccount [JsNumber 7], Sign CreateAuthToken []]
   \<and> run_events naming_runtime sample_methods (sample_globals\<lparr>txClient := Some 5\<rparr>)
       [Sign SignTransfer sample_transfer_args, Switch [JsNumber 9], Create [],
        Sign SignCreateSubAccount [JsNumber 7], Sign CreateAuthToken []] =
     (sample_globals\<lparr>txClient := Some 5\<rparr>,
      [Signed (Some \<lparr>Result = ''transfer signed by client 5'', Error = []\<rparr>),
       Answered (Some \<lparr>ErrorResponse.Error = ''no client initialized for api key''\<rparr>),
       Answered (Some \<lparr>ErrorResponse.Error =
         ''createClient requires 5 arguments: url, privateKey, chainId, apiKeyIndex, accountIndex''\<rparr>),
       Signed (Some \<lparr>Result = ''create sub account signed by client 5'', Error = []\<rparr>),
       Signed (Some \<lparr>Result = ''auth token signed by client 5'', Error = []\<rparr>)])"
proof -
  let ?st = "sample_globals\<lparr>txClient := Some 5\<rparr>"
  let ?evs = "[Sign SignTransfer sample_transfer_args, Switch [JsNumber 9], Create [],
        Sign SignCreateSubAccount [JsNumber 7], Sign CreateAuthToken []]"
  have absent: "map_index (backupTxClients sample_globals) (ucast (9 :: int64)) = None"
    by (simp add: sample_globals_def map_index_def)
  have present: "map_index (backupTxClients sample_globals) (ucast (5 :: int64)) = Some (Some 5)"
    by (simp add: sample_globals_def map_index_def)
  have absent': "map_index (backupTxClients ?st) (ucast (9 :: int64)) = None"
    by (simp add: sample_globals_def map_index_def)
  have no: "switchAPIKey sample_globals [JsNumber 9] =
      (sample_globals, Some (error_response ''no client initialized for api key''))"
    using switchAPIKey_active_client [of sample_globals 9, THEN conjunct1] absent by simp
  have no': "switchAPIKey ?st [JsNumber 9] =
      (?st, Some (error_response ''no client initialized for api key''))"
    using switchAPIKey_active_client [of ?st 9, THEN conjunct1] absent' by simp
  have yes: "switchAPIKey sample_globals [JsNumber 5] = (?st, Some (error_response []))"
    using switchAPIKey_active_client [of sample_globals 5 "Some 5",
        THEN conjunct2, THEN conjunct1] present by simp
  have quiet: "\<forall>ev \<in> set ?evs. before_next_change ?st ev"
    by (simp add: no' successful_def error_response_def reaches_NewTxClient_def)
  from switchAPIKey_active_client [where st = sample_globals and n = 5 and c = 5
      and evs = ?evs and R = naming_runtime and M = sample_methods,
      THEN conjunct2, THEN conjunct2, THEN conjunct2, THEN conjunct2] present quiet
  have run: "run_events naming_runtime sample_methods (fst (switchAPIKey sample_globals [JsNumber 5]))
      ?evs = (?st, map (outcome_in naming_runtime sample_methods ?st) ?evs)"
    by blast
  have transfer: "signTransfer naming_runtime ?st sample_transfer_args =
      Some \<lparr>Result = ''transfer signed by client 5'', Error = []\<rparr>"
    by (simp add: signTransfer_def sample_transfer_args_def
        signTransfer_request_reaches_memo [where client = 5] transfer_memo_empty
        naming_runtime_def sample_runtime_def signed_by_def decimal.simps)
  have sub: "signCreateSubAccount sample_methods ?st [JsNumber 7] =
      Some \<lparr>Result = ''create sub account signed by client 5'', Error = []\<rparr>"
    by (simp add: signCreateSubAccount_def signCreateSubAccount_request_def validateArg_present
        js_Int_def marshal_response_def sample_methods_def signed_by_def decimal.simps)
  have token: "createAuthToken sample_methods ?st [] =
      Some \<lparr>Result = ''auth token signed by client 5'', Error = []\<rparr>"
    by (simp add: createAuthToken_def createAuthToken_request_def
        sample_methods_def signed_by_def decimal.simps)
  have create: "createClient naming_runtime ?st [] = (?st, Some (error_response
      ''createClient requires 5 arguments: url, privateKey, chainId, apiKeyIndex, accountIndex''))"
    by (simp add: createClient_def)
  from run yes have "run_events naming_runtime sample_methods ?st ?evs =
      (?st, map (outcome_in naming_runtime sample_methods ?st) ?evs)"
    by simp
  then have "run_events naming_runtime sample_methods ?st ?evs =
     (?st,
      [Signed (Some \<lparr>Result = ''transfer signed by client 5'', Error = []\<rparr>),
       Answered (Some \<lparr>ErrorResponse.Error = ''no client initialized for api key''\<rparr>),
       Answered (Some \<lparr>ErrorResponse.Error =
         ''createClient requires 5 arguments: url, privateKey, chainId, apiKeyIndex, accountIndex''\<rparr>),
       Signed (Some \<lparr>Result = ''create sub account signed by client 5'', Error = []\<rparr>),
       Signed (Some \<lparr>Result = ''auth token signed by client 5'', Error = []\<rparr>)])"
    by (simp add: outcome_in_def transfer sub token no' create error_response_def)
  with no yes quiet show ?thesis
    by (simp add: error_response_def list_all_iff)
qed

text \<open>
  The claim as it was stated, with the switched-to client used until the next switch,
  fails at two concrete sequences from a registry that holds clients 3 and 5. In both
  \<open>switchAPIKey\<close> makes client 5 active and no further switch follows. In the first a
  \<open>createClient\<close> for index 7 succeeds, and the transfer is signed by client 7. In the
  second a \<open>createClient\<close> with an empty private key fails in \<open>NewTxClient\<close>; the
  assignment of its result has already replaced the active client, and the transfer
  finds no client.
\<close>

theorem switchAPIKey_active_client_counterexample:
  "run_events naming_runtime sample_methods sample_globals
       [Switch [JsNumber 5],
        Create [JsString ''https://api'', JsString sample_private_key, JsNumber 304, JsNumber 7,
                JsNumber 7],
        Sign SignTransfer sample_transfer_args] =
     (\<lparr>txClient = Some 7,
       backupTxClients = Some [3 \<mapsto> Some 3, 5 \<mapsto> Some 5, 7 \<mapsto> Some 7]\<rparr>,
      [Answered (Some \<lparr>ErrorResponse.Error = []\<rparr>),
       Answered (Some \<lparr>ErrorResponse.Error = []\<rparr>),
       Signed (Some \<lparr>Result = ''transfer signed by client 7'', Error = []\<rparr>)])
   \<and> run_events naming_runtime sample_methods sample_globals
       [Switch [JsNumber 5],
        Create [JsString ''https://api'', JsString [], JsNumber 304, JsNumber 7, JsNumber 7],
        Sign SignTransfer sample_transfer_args] =
     (\<lparr>txClient = None, backupTxClients = Some [3 \<mapsto> Some 3, 5 \<mapsto> Some 5]\<rparr>,
      [Answered (Some \<lparr>ErrorResponse.Error = []\<rparr>),
       Answered (Some \<lparr>ErrorResponse.Error =
         ''error occurred when creating TxClient. err: empty private key''\<rparr>),
       Signed (Some \<lparr>Result = [],
         Error = ''client is not created, call CreateClient() first''\<rparr>)])"
proof -
  have switch: "switchAPIKey sample_globals [JsNumber 5] =
      (sample_globals\<lparr>txClient := Some 5\<rparr>, Some (error_response []))"
    by (simp add: switchAPIKey_def validateArg_present js_Int_def sample_globals_def
        map_index_def)
  have created: "createClient naming_runtime (sample_globals\<lparr>txClient := Some 5\<rparr>)
       [JsString ''https://api'', JsString sample_private_key, JsNumber 304, JsNumber 7,
        JsNumber 7] =
     (\<lparr>txClient = Some 7,
       backupTxClients = Some [3 \<mapsto> Some 3, 5 \<mapsto> Some 5, 7 \<mapsto> Some 7]\<rparr>,
      Some (error_response []))"
    by (simp add: createClient_wellformed naming_runtime_def sample_runtime_def
        sample_globals_def sample_private_key_def word_sle_eq)
  have failed: "createClient naming_runtime (sample_globals\<lparr>txClient := Some 5\<rparr>)
       [JsString ''https://api'', JsString [], JsNumber 304, JsNumber 7, JsNumber 7] =
     (\<lparr>txClient = None, backupTxClients = Some [3 \<mapsto> Some 3, 5 \<mapsto> Some 5]\<rparr>,
      Some (error_response ''error occurred when creating TxClient. err: empty private key''))"
    by (simp add: createClient_wellformed naming_runtime_def sample_runtime_def
        sample_globals_def word_sle_eq)
  have by7: "signTransfer naming_runtime
       \<lparr>txClient = Some 7,
         backupTxClients = Some [3 \<mapsto> Some 3, 5 \<mapsto> Some 5, 7 \<mapsto> Some 7]\<rparr>
       sample_transfer_args =
     Some \<lparr>Result = ''transfer signed by client 7'', Error = []\<rparr>"
    by (simp add: signTransfer_def sample_transfer_args_def
        signTransfer_request_reaches_memo [where client = 7] transfer_memo_empty
        naming_runtime_def sample_runtime_def signed_by_def decimal.simps)
  have none: "signTransfer naming_runtime
       \<lparr>txClient = None, backupTxClients = Some [3 \<mapsto> Some 3, 5 \<mapsto> Some 5]\<rparr>
       sample_transfer_args =
     Some \<lparr>Result = [], Error = ''client is not created, call CreateClient() first''\<rparr>"
    by (simp add: signTransfer_def signTransfer_request_def sample_transfer_args_def
        validateArg_present string_error_def)
  show ?thesis
    by (simp add: switch created failed by7 none error_response_def)
qed

section \<open>Further facts about the requests\<close>

text \<open>
  A memo of length 64 that the decoder rejects, or turns into other than 32 bytes,
  ends \<open>signTransfer\<close> with the error of that check.
\<close>

lemma transfer_memo_undecodable:
  "length memoStr = 64 \<Longrightarrow> hexutil_Decode R (''0x'' @ memoStr) = Inl err \<Longrightarrow>
     transfer_memo R memoStr = Inl (''invalid hex memo: '' @ err)"
  by (auto simp add: transfer_memo_def Let_def)

lemma transfer_memo_wrong_size:
  "length memoStr = 64 \<Longrightarrow> hexutil_Decode R (''0x'' @ memoStr) = Inr memoBytes \<Longrightarrow>
     length memoBytes \<noteq> 32 \<Longrightarrow>
     transfer_memo R memoStr =
       Inl (''memo must be exactly 32 bytes, got '' @ decimal (length memoBytes))"
  by (auto simp add: transfer_memo_def Let_def)

text \<open>
  The legs that the loop of \<open>signCreateGroupedOrders\<close> appends: one for each parsed
  order, in order, with the fields of the order, the client order index 0 and the
  default expiry where the order has -1.
\<close>

lemma build_orders_legs:
  "build_orders clock i reqs orders =
     orders @
     map (\<lambda>(k, orderReq).
            \<lparr>CreateOrderTxReq.MarketIndex = orderRequest.MarketIndex orderReq,
             ClientOrderIndex = 0,
             CreateOrderTxReq.BaseAmount = orderRequest.BaseAmount orderReq,
             CreateOrderTxReq.Price = orderRequest.Price orderReq,
             CreateOrderTxReq.IsAsk = orderRequest.IsAsk orderReq,
             CreateOrderTxReq.Type = orderRequest.Type orderReq,
             CreateOrderTxReq.TimeInForce = orderRequest.TimeInForce orderReq,
             CreateOrderTxReq.ReduceOnly = orderRequest.ReduceOnly orderReq,
             CreateOrderTxReq.TriggerPrice = orderRequest.TriggerPrice orderReq,
             CreateOrderTxReq.OrderExpiry =
               (if orderRequest.OrderExpiry orderReq = - 1 then clock k
                else orderRequest.OrderExpiry orderReq)\<rparr>)
         (zip [i ..< i + length reqs] reqs)"
proof (induction reqs arbitrary: i orders)
  case Nil
  then show ?case by (simp add: build_orders.simps)
next
  case (Cons orderReq rest)
  have "[i ..< i + length (orderReq # rest)] = i # [Suc i ..< Suc i + length rest]"
    by (simp add: upt_rec)
  then show ?case
    by (simp add: build_orders.simps Cons.IH Let_def append_slice_def)
qed

end
